theory Spec2Isabelle
  imports Main
begin

section \<open>JavaScript \<open>Map\<close> as an insertion-ordered association list\<close>

text \<open>
  Both the signaling route (\<open>rooms\<close>, \<open>room.peers\<close>) and the RTC service
  (\<open>connections\<close>) keep their tables in a JavaScript \<open>Map\<close>. A \<open>Map\<close> iterates in
  insertion order, \<open>set\<close> on a present key overwrites the value in place and \<open>set\<close> on an
  absent key appends. The tables are association lists with exactly these operations.
\<close>

definition Map_get :: "('k \<times> 'v) list \<Rightarrow> 'k \<Rightarrow> 'v option" where
  "Map_get m k = map_of m k"

definition Map_has :: "('k \<times> 'v) list \<Rightarrow> 'k \<Rightarrow> bool" where
  "Map_has m k = (map_of m k \<noteq> None)"

primrec Map_set :: "'k \<Rightarrow> 'v \<Rightarrow> ('k \<times> 'v) list \<Rightarrow> ('k \<times> 'v) list" where
  "Map_set k v [] = [(k, v)]"
| "Map_set k v (e # m) = (if fst e = k then (k, v) # m else e # Map_set k v m)"

definition Map_delete :: "'k \<Rightarrow> ('k \<times> 'v) list \<Rightarrow> ('k \<times> 'v) list" where
  "Map_delete k m = filter (\<lambda>e. fst e \<noteq> k) m"

definition Map_keys :: "('k \<times> 'v) list \<Rightarrow> 'k list" where
  "Map_keys m = map fst m"

definition Map_values :: "('k \<times> 'v) list \<Rightarrow> 'v list" where
  "Map_values m = map snd m"


section \<open>The signaling mailbox store (\<open>src/app/api/signaling/route.ts\<close>)\<close>

text \<open>
  An offer record \<open>{from, offer, timestamp}\<close> and an answer record
  \<open>{from, answer, timestamp}\<close> have the same shape; one record type stands for both,
  with \<open>sender\<close> for the field \<open>from\<close> and \<open>payload\<close> for \<open>offer\<close> / \<open>answer\<close>.
  The payload is \<open>any\<close> in the source and stays a type parameter. Timestamps are the
  integer milliseconds of \<open>Date.now()\<close>.
\<close>

record 'p signal =
  sender :: string
  payload :: 'p
  timestamp :: int

record 'p PeerInfo =
  info_peerId :: string
  lastSeen :: int
  offers :: "'p signal list"
  answers :: "'p signal list"

record 'p RoomInfo =
  hostPeerId :: "string option"
  peers :: "(string \<times> 'p PeerInfo) list"
  created :: int
  lastActivity :: int

type_synonym 'p rooms = "(string \<times> 'p RoomInfo) list"

text \<open>
  The parsed request body. A string field that is missing is the empty string (both are
  falsy for the \<open>!x\<close> tests of the route); \<open>offer\<close> and \<open>answer\<close> are \<open>None\<close> when
  missing or falsy; \<open>lastPoll\<close> is \<open>None\<close> when missing.
\<close>

record 'p request =
  action :: string
  roomId :: string
  peerId :: string
  isHost :: bool
  target :: string
  offer :: "'p option"
  answer :: "'p option"
  lastPoll :: "int option"

text \<open>An entry \<open>{peerId, isHost}\<close> of the \<open>peers\<close> and \<open>newPeers\<close> arrays.\<close>

datatype Peer = Peer string bool

text \<open>
  One constructor per object literal handed to \<open>NextResponse.json\<close>, with one argument
  per field of that literal, in the order of the source:
  \<^item> \<open>ErrorResponse error status\<close>;
  \<^item> \<open>JoinResponse success peers isHost hostPeerId\<close>;
  \<^item> \<open>SuccessResponse success\<close> for \<open>{ success: true }\<close>;
  \<^item> \<open>PollResponse success offers answers newPeers timestamp\<close>.
\<close>

datatype 'p response =
    ErrorResponse string nat
  | JoinResponse bool "Peer list" bool "string option"
  | SuccessResponse bool
  | PollResponse bool "'p signal list" "'p signal list" "Peer list" int

text \<open>Reading the fields \<open>success\<close>, \<open>timestamp\<close>, \<open>offers\<close>, \<open>answers\<close> and
  \<open>newPeers\<close> of a response body; \<open>None\<close> (or the empty list) when the body has no
  such field.\<close>

fun response_success :: "'p response \<Rightarrow> bool option" where
  "response_success (ErrorResponse e st) = None"
| "response_success (JoinResponse s ps h hp) = Some s"
| "response_success (SuccessResponse s) = Some s"
| "response_success (PollResponse s offs anss nps t) = Some s"

fun response_timestamp :: "'p response \<Rightarrow> int option" where
  "response_timestamp (ErrorResponse e st) = None"
| "response_timestamp (JoinResponse s ps h hp) = None"
| "response_timestamp (SuccessResponse s) = None"
| "response_timestamp (PollResponse s offs anss nps t) = Some t"

fun response_offers :: "'p response \<Rightarrow> 'p signal list" where
  "response_offers (PollResponse s offs anss nps t) = offs"
| "response_offers _ = []"

fun response_answers :: "'p response \<Rightarrow> 'p signal list" where
  "response_answers (PollResponse s offs anss nps t) = anss"
| "response_answers _ = []"


fun response_peers :: "'p response \<Rightarrow> Peer list" where
  "response_peers (JoinResponse s ps h hp) = ps"
| "response_peers _ = []"

text \<open>\<open>body.lastPoll || 0\<close>: a missing or zero cursor reads as \<open>0\<close>.\<close>

definition cursor :: "int option \<Rightarrow> int" where
  "cursor lp = (case lp of None \<Rightarrow> 0 | Some v \<Rightarrow> if v = 0 then 0 else v)"

text \<open>\<open>case 'join'\<close> (lines 98--118).\<close>

definition handle_join :: "'p request \<Rightarrow> 'p RoomInfo \<Rightarrow> 'p response \<times> 'p RoomInfo" where
  "handle_join body room =
     (let room1 = (if isHost body then room\<lparr>hostPeerId := Some (peerId body)\<rparr> else room);
          ps = map (\<lambda>i. Peer i (Some i = hostPeerId room1))
                 (filter (\<lambda>i. i \<noteq> peerId body) (Map_keys (peers room1)))
      in (JoinResponse True ps (Some (peerId body) = hostPeerId room1) (hostPeerId room1), room1))"

text \<open>\<open>case 'offer'\<close> (lines 120--144). A target without a mailbox gets one, last seen
  one minute before \<open>now\<close>.\<close>

definition handle_offer :: "int \<Rightarrow> 'p request \<Rightarrow> 'p RoomInfo \<Rightarrow> 'p response \<times> 'p RoomInfo" where
  "handle_offer now body room =
     (case offer body of
        None \<Rightarrow> (ErrorResponse ''Invalid offer'' 400, room)
      | Some off \<Rightarrow>
          if target body = [] then (ErrorResponse ''Invalid offer'' 400, room)
          else
            let ps1 = (if \<not> Map_has (peers room) (target body)
                       then Map_set (target body)
                              \<lparr>info_peerId = target body, lastSeen = now - 60000,
                               offers = [], answers = []\<rparr> (peers room)
                       else peers room)
            in (case Map_get ps1 (target body) of
                  None \<Rightarrow> (ErrorResponse ''Server error'' 500, room)
                | Some targetPeer \<Rightarrow>
                    (SuccessResponse True,
                     room\<lparr>peers := Map_set (target body)
                        (targetPeer\<lparr>offers := offers targetPeer @
                           [\<lparr>sender = peerId body, payload = off, timestamp = now\<rparr>]\<rparr>) ps1\<rparr>)))"

text \<open>\<open>case 'answer'\<close> (lines 146--165). A target without a mailbox is refused with
  status 404.\<close>

definition handle_answer :: "int \<Rightarrow> 'p request \<Rightarrow> 'p RoomInfo \<Rightarrow> 'p response \<times> 'p RoomInfo" where
  "handle_answer now body room =
     (case answer body of
        None \<Rightarrow> (ErrorResponse ''Invalid answer'' 400, room)
      | Some ans \<Rightarrow>
          if target body = [] then (ErrorResponse ''Invalid answer'' 400, room)
          else
            (case Map_get (peers room) (target body) of
               None \<Rightarrow> (ErrorResponse ''Target peer not found'' 404, room)
             | Some targetPeer \<Rightarrow>
                 (SuccessResponse True,
                  room\<lparr>peers := Map_set (target body)
                     (targetPeer\<lparr>answers := answers targetPeer @
                        [\<lparr>sender = peerId body, payload = ans, timestamp = now\<rparr>]\<rparr>)
                     (peers room)\<rparr>)))"

text \<open>\<open>case 'poll'\<close> (lines 167--199): the response is computed from the mailboxes as
  they are, then every mailbox is pruned to the records younger than one minute, then
  the new peers are read.\<close>

definition prune :: "int \<Rightarrow> 'p PeerInfo \<Rightarrow> 'p PeerInfo" where
  "prune now p =
     p\<lparr>offers := filter (\<lambda>r. timestamp r > now - 60000) (offers p),
       answers := filter (\<lambda>r. timestamp r > now - 60000) (answers p)\<rparr>"

definition handle_poll :: "int \<Rightarrow> 'p request \<Rightarrow> 'p RoomInfo \<Rightarrow> 'p response \<times> 'p RoomInfo" where
  "handle_poll now body room =
     (let offs = filter (\<lambda>r. sender r \<noteq> peerId body \<and> timestamp r > cursor (lastPoll body))
                 (concat (map offers (Map_values (peers room))));
          anss = filter (\<lambda>r. sender r \<noteq> peerId body \<and> timestamp r > cursor (lastPoll body))
                 (concat (map answers (Map_values (peers room))));
          room1 = room\<lparr>peers := map (\<lambda>e. (fst e, prune now (snd e))) (peers room)\<rparr>;
          nps = map (\<lambda>i. Peer i (Some i = hostPeerId room1))
                  (filter (\<lambda>i. i \<noteq> peerId body \<and>
                               (case Map_get (peers room1) i of
                                  None \<Rightarrow> False
                                | Some p \<Rightarrow> lastSeen p > cursor (lastPoll body)))
                     (Map_keys (peers room1)))
      in (PollResponse True offs anss nps now, room1))"

text \<open>
  Lines 69--94, run for every well-formed request before its action is looked at: the
  room is created if absent and its activity time refreshed, the requesting peer's
  mailbox is created if absent and its last-seen time refreshed.
\<close>

definition touch :: "int \<Rightarrow> 'p request \<Rightarrow> 'p rooms \<Rightarrow> 'p RoomInfo" where
  "touch now body rooms =
     (let room0 = (case Map_get rooms (roomId body) of
                     None \<Rightarrow> \<lparr>hostPeerId = None, peers = [], created = now, lastActivity = now\<rparr>
                   | Some r \<Rightarrow> r);
          room1 = room0\<lparr>lastActivity := now\<rparr>;
          peer0 = (case Map_get (peers room1) (peerId body) of
                     None \<Rightarrow> \<lparr>info_peerId = peerId body, lastSeen = now, offers = [], answers = []\<rparr>
                   | Some p \<Rightarrow> p)
      in room1\<lparr>peers := Map_set (peerId body) (peer0\<lparr>lastSeen := now\<rparr>) (peers room1)\<rparr>)"

text \<open>
  The handler \<open>POST\<close>: the table of rooms and the clock reading \<open>now\<close> go in, the
  response and the updated table come out. The objects of the source are mutated in
  place; here the touched room is written back under its identifier. The body has
  been parsed already: a request whose body is not JSON is answered with status 500
  by the \<open>catch\<close> branch before the table is touched.
\<close>

definition POST :: "'p rooms \<Rightarrow> int \<Rightarrow> 'p request \<Rightarrow> 'p response \<times> 'p rooms" where
  "POST rooms now body =
     (if action body = [] \<or> roomId body = [] \<or> peerId body = []
      then (ErrorResponse ''Invalid request'' 400, rooms)
      else
        let room = touch now body rooms;
            (resp, room') =
              (if action body = ''join'' then handle_join body room
               else if action body = ''offer'' then handle_offer now body room
               else if action body = ''answer'' then handle_answer now body room
               else if action body = ''poll'' then handle_poll now body room
               else (ErrorResponse ''Invalid action'' 400, room))
        in (resp, Map_set (roomId body) room' rooms))"

text \<open>The mailbox of a peer in a room, if both exist.\<close>

definition mailbox :: "'p rooms \<Rightarrow> string \<Rightarrow> string \<Rightarrow> 'p PeerInfo option" where
  "mailbox rooms rid pid =
     (case Map_get rooms rid of None \<Rightarrow> None | Some room \<Rightarrow> Map_get (peers room) pid)"

text \<open>
  The periodic clean-up (lines 30--55), run at clock reading \<open>now\<close>: in every room the
  mailboxes not seen for longer than \<open>PEER_TIMEOUT\<close> go, then the room goes if it has
  been idle for longer than \<open>ROOM_TIMEOUT\<close> or has no mailbox left.
\<close>

definition PEER_TIMEOUT :: int where
  "PEER_TIMEOUT = 2 * 60 * 1000"

definition ROOM_TIMEOUT :: int where
  "ROOM_TIMEOUT = 24 * 60 * 60 * 1000"

definition sweep_room :: "int \<Rightarrow> 'p RoomInfo \<Rightarrow> 'p RoomInfo" where
  "sweep_room now room =
     room\<lparr>peers := filter (\<lambda>e. \<not> now - lastSeen (snd e) > PEER_TIMEOUT) (peers room)\<rparr>"

definition sweep :: "int \<Rightarrow> 'p rooms \<Rightarrow> 'p rooms" where
  "sweep now rooms =
     filter (\<lambda>e. \<not> (now - lastActivity (snd e) > ROOM_TIMEOUT \<or> peers (snd e) = []))
       (map (\<lambda>e. (fst e, sweep_room now (snd e))) rooms)"

text \<open>What the store sees over time: requests and runs of the clean-up, each with the
  clock reading at which it is handled.\<close>

datatype 'p arrival = Request int "'p request" | Sweep int

fun arrival_time :: "'p arrival \<Rightarrow> int" where
  "arrival_time (Request now q) = now"
| "arrival_time (Sweep now) = now"

fun serve :: "'p rooms \<Rightarrow> 'p arrival list \<Rightarrow> 'p rooms" where
  "serve rooms [] = rooms"
| "serve rooms (Request now q # as) = serve (snd (POST rooms now q)) as"
| "serve rooms (Sweep now # as) = serve (sweep now rooms) as"


text \<open>Every record held in the mailboxes of one room.\<close>

definition room_records :: "'p RoomInfo \<Rightarrow> 'p signal list" where
  "room_records room = concat (map (\<lambda>p. offers p @ answers p) (Map_values (peers room)))"

definition stored :: "'p rooms \<Rightarrow> string \<Rightarrow> 'p signal list" where
  "stored rooms rid = (case Map_get rooms rid of None \<Rightarrow> [] | Some room \<Rightarrow> room_records room)"



section \<open>The signaling client (\<open>src/app/services/signaling.ts\<close>)\<close>

text \<open>
  The fields of \<open>SignalingService\<close> that \<open>join\<close> writes: \<open>polling\<close> says whether the
  interval timer \<open>pollingInterval\<close> is set.
\<close>

record SignalingService =
  lastPollTimestamp :: int
  active :: bool
  polling :: bool

text \<open>\<open>response.ok\<close>: the status is in the range 200--299. \<open>NextResponse.json\<close>
  without a status answers 200.\<close>

fun response_ok :: "'p response \<Rightarrow> bool" where
  "response_ok (ErrorResponse e st) = (200 \<le> st \<and> st \<le> 299)"
| "response_ok _ = True"

text \<open>
  \<open>join\<close> (lines 47--82). \<open>clientNow\<close> is the client's own \<open>Date.now()\<close>, read after the
  response has arrived; \<open>http\<close> is the outcome of \<open>fetch\<close>, \<open>None\<close> when it rejects.
  Every failure ends in the \<open>catch\<close> branch, which returns the empty list.
\<close>

definition join :: "SignalingService \<Rightarrow> int \<Rightarrow> 'p response option \<Rightarrow> Peer list \<times> SignalingService" where
  "join svc clientNow http =
     (let svc1 = svc\<lparr>active := True\<rparr>
      in case http of
           None \<Rightarrow> ([], svc1)
         | Some data \<Rightarrow>
             if \<not> response_ok data then ([], svc1)
             else if response_success data \<noteq> Some True then ([], svc1)
             else (response_peers data, svc1\<lparr>lastPollTimestamp := clientNow, polling := True\<rparr>))"


section \<open>The peer negotiation state machine (\<open>RTCService\<close>)\<close>

datatype ConnectionState =
    NEW | CONNECTING | OFFER_SENT | OFFER_RECEIVED | ANSWER_SENT | ANSWER_RECEIVED
  | CONNECTED | DISCONNECTED | FAILED

text \<open>
  A session description (\<open>RTCSessionDescriptionInit\<close>) is an opaque string. The
  \<open>RTCPeerConnection\<close> and \<open>RTCDataChannel\<close> objects of the browser are known by their
  identity only, a number handed out when the object is made.
\<close>

type_synonym sdp = string
type_synonym handle = nat

datatype error = Error string

record PeerConnection =
  pc_peerId :: string
  pc_isHost :: bool
  connection :: handle
  dataChannel :: "handle option"
  isInitiator :: bool
  connected :: bool
  state :: ConnectionState
  processingSignal :: bool

text \<open>The closures handed to \<open>setTimeout\<close>, by the call they make when they fire.\<close>

datatype timer =
    RetryCreateAndSendOffer string
  | RetryHandleOffer string sdp
  | RetryHandleAnswer string sdp
  | Reconnect string bool bool
  | ConnectTimeout string bool bool

text \<open>
  What the service does to the world outside a record's fields, in the order it does
  it: calls into the browser's transport, into the signaling client, timers and the
  registered callbacks. \<open>StateChange\<close>, \<open>TableSet\<close> and \<open>TableDelete\<close> mark the
  assignments to \<open>state\<close> and the \<open>set\<close> / \<open>delete\<close> on \<open>connections\<close>, so that their
  order among the calls can be stated.
\<close>

datatype event =
    NewPeerConnection handle
  | CreateDataChannel handle handle
  | CloseChannel handle
  | CloseConnection handle
  | TableSet string
  | TableDelete string
  | CreateOffer handle
  | CreateAnswer handle
  | SetLocalDescription handle sdp
  | SetRemoteDescription handle sdp
  | SendOffer string sdp
  | SendAnswer string sdp
  | SetTimeout timer nat
  | StateChange string ConnectionState
  | OnConnection string
  | OnDisconnection string
  | OnPeerCountChange nat
  | OnError error
  | SignalingStop

text \<open>
  The service: its own peer identifier and role, the table \<open>connections\<close>, for each
  callback slot whether a callback is registered, the events so far and the next unused
  object identity.
\<close>

record RTCService =
  self_peerId :: string
  self_isHost :: bool
  connections :: "(string \<times> PeerConnection) list"
  onConnectionCallback :: bool
  onDisconnectionCallback :: bool
  onErrorCallback :: bool
  onPeerCountChangeCallback :: bool
  trace :: "event list"
  fresh :: handle

text \<open>
  The results of the calls one handler run makes into the browser and into the
  signaling client; each is made at most once per run. For a browser call, \<open>Some e\<close>
  and \<open>Inl e\<close> say that the call throws (or its promise rejects with) \<open>e\<close>. The
  signaling client's \<open>sendOffer\<close> and \<open>sendAnswer\<close> never throw: when the request
  fails with \<open>e\<close> (\<open>Some e\<close>) the client catches it, reports it to its error callback,
  which the constructor of \<open>RTCService\<close> sets to \<open>handleSignalingError\<close>, and resolves.
  A handler is run to its end with these results; what other handlers do while it is
  suspended at an \<open>await\<close> is outside this model, and so is whatever a registered
  callback does when it is called.
\<close>

record env =
  newPeerConnection :: "error option"
  createDataChannel :: "error option"
  createOffer :: "error + sdp"
  createAnswer :: "error + sdp"
  newSessionDescription :: "error option"
  setLocalDescription :: "error option"
  setRemoteDescription :: "error option"
  sendOffer :: "error option"
  sendAnswer :: "error option"

definition emit :: "event \<Rightarrow> RTCService \<Rightarrow> RTCService" where
  "emit ev w = w\<lparr>trace := trace w @ [ev]\<rparr>"

text \<open>A write to a field of the record stored for a peer.\<close>

definition update_record :: "string \<Rightarrow> (PeerConnection \<Rightarrow> PeerConnection) \<Rightarrow> RTCService \<Rightarrow> RTCService" where
  "update_record pid f w =
     (case Map_get (connections w) pid of
        None \<Rightarrow> w
      | Some pc \<Rightarrow> w\<lparr>connections := Map_set pid (f pc) (connections w)\<rparr>)"

definition set_state :: "string \<Rightarrow> ConnectionState \<Rightarrow> RTCService \<Rightarrow> RTCService" where
  "set_state pid st w = emit (StateChange pid st) (update_record pid (\<lambda>pc. pc\<lparr>state := st\<rparr>) w)"

definition set_processingSignal :: "string \<Rightarrow> bool \<Rightarrow> RTCService \<Rightarrow> RTCService" where
  "set_processingSignal pid b w = update_record pid (\<lambda>pc. pc\<lparr>processingSignal := b\<rparr>) w"

definition set_connected :: "string \<Rightarrow> bool \<Rightarrow> RTCService \<Rightarrow> RTCService" where
  "set_connected pid b w = update_record pid (\<lambda>pc. pc\<lparr>connected := b\<rparr>) w"

definition handleError :: "error \<Rightarrow> RTCService \<Rightarrow> RTCService" where
  "handleError e w = (if onErrorCallback w then emit (OnError e) w else w)"

definition handleSignalingError :: "error \<Rightarrow> RTCService \<Rightarrow> RTCService" where
  "handleSignalingError e w = handleError e w"

text \<open>The error callback's event, if a failed request makes the signaling client
  report one and a callback is registered.\<close>

definition error_report :: "error option \<Rightarrow> RTCService \<Rightarrow> event list" where
  "error_report r w = (case r of None \<Rightarrow> [] | Some e \<Rightarrow> if onErrorCallback w then [OnError e] else [])"

text \<open>\<open>await this.signaling.sendOffer(peerId, offer)\<close> and
  \<open>await this.signaling.sendAnswer(from, answer)\<close>; the boolean they resolve to is not
  looked at.\<close>

definition signaling_sendOffer :: "env \<Rightarrow> string \<Rightarrow> sdp \<Rightarrow> RTCService \<Rightarrow> RTCService" where
  "signaling_sendOffer io pid off w =
     (let w1 = emit (SendOffer pid off) w
      in case sendOffer io of None \<Rightarrow> w1 | Some e \<Rightarrow> handleSignalingError e w1)"

definition signaling_sendAnswer :: "env \<Rightarrow> string \<Rightarrow> sdp \<Rightarrow> RTCService \<Rightarrow> RTCService" where
  "signaling_sendAnswer io pid ans w =
     (let w1 = emit (SendAnswer pid ans) w
      in case sendAnswer io of None \<Rightarrow> w1 | Some e \<Rightarrow> handleSignalingError e w1)"

definition getConnectedPeerCount :: "RTCService \<Rightarrow> nat" where
  "getConnectedPeerCount w = length (filter connected (Map_values (connections w)))"

definition updatePeerCount :: "RTCService \<Rightarrow> RTCService" where
  "updatePeerCount w =
     (if onPeerCountChangeCallback w then emit (OnPeerCountChange (getConnectedPeerCount w)) w
      else w)"

definition fireConnection :: "string \<Rightarrow> RTCService \<Rightarrow> RTCService" where
  "fireConnection pid w = (if onConnectionCallback w then emit (OnConnection pid) w else w)"

definition fireDisconnection :: "string \<Rightarrow> RTCService \<Rightarrow> RTCService" where
  "fireDisconnection pid w = (if onDisconnectionCallback w then emit (OnDisconnection pid) w else w)"

text \<open>\<open>createAndSendOffer\<close> (lines 272--327). The \<open>catch\<close> runs before the \<open>finally\<close>.\<close>

definition createAndSendOffer :: "env \<Rightarrow> string \<Rightarrow> RTCService \<Rightarrow> RTCService" where
  "createAndSendOffer io pid w =
     (case Map_get (connections w) pid of
        None \<Rightarrow> w
      | Some pc \<Rightarrow>
          if state pc = CONNECTED then w
          else if processingSignal pc
          then emit (SetTimeout (RetryCreateAndSendOffer pid) 500) w
          else
            let w1 = set_processingSignal pid True w;
                w2 =
                  (if state pc \<in> set [OFFER_SENT, OFFER_RECEIVED, ANSWER_SENT, ANSWER_RECEIVED, CONNECTED]
                   then w1
                   else
                     let w3 = emit (CreateOffer (connection pc)) (set_state pid CONNECTING w1)
                     in (case createOffer io of
                           Inl e \<Rightarrow> handleError e w3
                         | Inr off \<Rightarrow>
                             let w4 = emit (SetLocalDescription (connection pc) off) w3
                             in (case setLocalDescription io of
                                   Some e \<Rightarrow> handleError e w4
                                 | None \<Rightarrow> signaling_sendOffer io pid off (set_state pid OFFER_SENT w4))))
            in set_processingSignal pid False w2)"

text \<open>The part of \<open>connectToPeer\<close> that tears an old record down (lines 130--137).\<close>

definition teardown_events :: "string \<Rightarrow> PeerConnection \<Rightarrow> event list" where
  "teardown_events pid existing =
     (case dataChannel existing of None \<Rightarrow> [] | Some ch \<Rightarrow> [CloseChannel ch])
     @ [CloseConnection (connection existing), TableDelete pid]"

definition cleanup :: "string \<Rightarrow> PeerConnection \<Rightarrow> RTCService \<Rightarrow> RTCService" where
  "cleanup pid existing w =
     (let w1 = (case dataChannel existing of None \<Rightarrow> w | Some ch \<Rightarrow> emit (CloseChannel ch) w);
          w2 = emit (CloseConnection (connection existing)) w1
      in emit (TableDelete pid) (w2\<lparr>connections := Map_delete pid (connections w2)\<rparr>))"

text \<open>The \<open>try\<close> block of \<open>connectToPeer\<close> (lines 139--268).\<close>

definition createConnection :: "env \<Rightarrow> string \<Rightarrow> bool \<Rightarrow> bool \<Rightarrow> RTCService \<Rightarrow> RTCService" where
  "createConnection io pid isHost' isInitiator' w =
     (case newPeerConnection io of
        Some e \<Rightarrow> handleError e w
      | None \<Rightarrow>
          let c = fresh w;
              w1 = emit (NewPeerConnection c) (w\<lparr>fresh := c + 1\<rparr>)
          in (case (if isInitiator' then createDataChannel io else None) of
                Some e \<Rightarrow> handleError e w1
              | None \<Rightarrow>
               let ch = (if isInitiator' then Some (fresh w1) else None);
                   w2 = (if isInitiator'
                         then emit (CreateDataChannel c (fresh w1)) (w1\<lparr>fresh := fresh w1 + 1\<rparr>)
                         else w1);
                   w3 = emit (TableSet pid)
                          (w2\<lparr>connections := Map_set pid
                                \<lparr>pc_peerId = pid, pc_isHost = isHost', connection = c,
                                 dataChannel = ch, isInitiator = isInitiator', connected = False,
                                 state = NEW, processingSignal = False\<rparr> (connections w2)\<rparr>);
                   w4 = emit (SetTimeout (ConnectTimeout pid isHost' isInitiator') 10000) w3
               in if isInitiator' then createAndSendOffer io pid w4 else w4))"

text \<open>\<open>connectToPeer\<close> (lines 114--269).\<close>

definition connectToPeer :: "env \<Rightarrow> string \<Rightarrow> bool \<Rightarrow> bool \<Rightarrow> RTCService \<Rightarrow> RTCService" where
  "connectToPeer io pid isHost' isInitiator' w =
     (if pid = self_peerId w then w
      else case Map_get (connections w) pid of
             None \<Rightarrow> createConnection io pid isHost' isInitiator' w
           | Some existing \<Rightarrow>
               if state existing \<noteq> DISCONNECTED \<and> state existing \<noteq> FAILED then w
               else createConnection io pid isHost' isInitiator' (cleanup pid existing w))"

text \<open>
  The inner \<open>try\<close> block of \<open>handleOffer\<close> (lines 357--383), entered with the lock
  held: the service it leaves behind and the error it throws, if any.
\<close>

definition acceptOffer :: "env \<Rightarrow> string \<Rightarrow> sdp \<Rightarrow> PeerConnection \<Rightarrow> RTCService \<Rightarrow> RTCService \<times> error option" where
  "acceptOffer io from_peer off pc w =
     (if state pc \<in> set [OFFER_SENT, ANSWER_RECEIVED, CONNECTED] then (w, None)
      else
        let w1 = set_state from_peer OFFER_RECEIVED w
        in (case newSessionDescription io of
              Some e \<Rightarrow> (w1, Some e)
            | None \<Rightarrow>
                let w2 = emit (SetRemoteDescription (connection pc) off) w1
                in (case setRemoteDescription io of
                      Some e \<Rightarrow> (w2, Some e)
                    | None \<Rightarrow>
                        let w3 = emit (CreateAnswer (connection pc)) w2
                        in (case createAnswer io of
                              Inl e \<Rightarrow> (w3, Some e)
                            | Inr ans \<Rightarrow>
                                let w4 = emit (SetLocalDescription (connection pc) ans) w3
                                in (case setLocalDescription io of
                                      Some e \<Rightarrow> (w4, Some e)
                                    | None \<Rightarrow>
                                        (signaling_sendAnswer io from_peer ans
                                           (set_state from_peer ANSWER_SENT w4), None))))))"

text \<open>\<open>handleOffer\<close> (lines 330--391). The \<open>finally\<close> of the inner block runs before
  the \<open>catch\<close> of the outer one.\<close>

definition handleOffer :: "env \<Rightarrow> string \<Rightarrow> sdp \<Rightarrow> RTCService \<Rightarrow> RTCService" where
  "handleOffer io from_peer off w =
     (let w0 = (case Map_get (connections w) from_peer of
                  None \<Rightarrow> connectToPeer io from_peer False False w
                | Some pc \<Rightarrow> w)
      in (case Map_get (connections w0) from_peer of
            None \<Rightarrow> w0
          | Some pc \<Rightarrow>
              if state pc = CONNECTED then w0
              else if processingSignal pc
              then emit (SetTimeout (RetryHandleOffer from_peer off) 500) w0
              else
                let r = acceptOffer io from_peer off pc (set_processingSignal from_peer True w0);
                    w1 = set_processingSignal from_peer False (fst r)
                in (case snd r of None \<Rightarrow> w1 | Some e \<Rightarrow> handleError e w1)))"

text \<open>The inner \<open>try\<close> block of \<open>handleAnswer\<close> (lines 423--439).\<close>

definition acceptAnswer :: "env \<Rightarrow> string \<Rightarrow> sdp \<Rightarrow> PeerConnection \<Rightarrow> RTCService \<Rightarrow> RTCService \<times> error option" where
  "acceptAnswer io from_peer ans pc w =
     (if state pc \<in> set [ANSWER_RECEIVED, CONNECTED] then (w, None)
      else
        (case newSessionDescription io of
           Some e \<Rightarrow> (w, Some e)
         | None \<Rightarrow>
             let w1 = emit (SetRemoteDescription (connection pc) ans) w
             in (case setRemoteDescription io of
                   Some e \<Rightarrow> (w1, Some e)
                 | None \<Rightarrow> (set_state from_peer ANSWER_RECEIVED w1, None))))"

text \<open>\<open>handleAnswer\<close> (lines 394--447).\<close>

definition handleAnswer :: "env \<Rightarrow> string \<Rightarrow> sdp \<Rightarrow> RTCService \<Rightarrow> RTCService" where
  "handleAnswer io from_peer ans w =
     (case Map_get (connections w) from_peer of
        None \<Rightarrow>
          emit (SetTimeout (RetryHandleAnswer from_peer ans) 500)
            (connectToPeer io from_peer False True w)
      | Some pc \<Rightarrow>
          if state pc = CONNECTED then w
          else if processingSignal pc
          then emit (SetTimeout (RetryHandleAnswer from_peer ans) 500) w
          else
            let r = acceptAnswer io from_peer ans pc (set_processingSignal from_peer True w);
                w1 = set_processingSignal from_peer False (fst r)
            in (case snd r of None \<Rightarrow> w1 | Some e \<Rightarrow> handleError e w1))"

text \<open>The states \<open>connection.connectionState\<close> can report.\<close>

datatype RTCPeerConnectionState =
    cs_new | cs_connecting | cs_connected | cs_disconnected | cs_failed | cs_closed

text \<open>The three branches \<open>'disconnected'\<close>, \<open>'failed'\<close> and \<open>'closed'\<close> of
  \<open>onconnectionstatechange\<close> differ in the state they set only.\<close>

definition lostConnection :: "string \<Rightarrow> ConnectionState \<Rightarrow> PeerConnection \<Rightarrow> RTCService \<Rightarrow> RTCService" where
  "lostConnection pid st pc w =
     (let w1 = set_state pid st w
      in if connected pc
         then updatePeerCount (fireDisconnection pid (set_connected pid False w1))
         else w1)"

text \<open>\<open>connection.onconnectionstatechange\<close> (lines 192--240), for the connection made
  for peer \<open>pid\<close>: it acts on whatever record the table holds for \<open>pid\<close>.\<close>

definition onconnectionstatechange :: "string \<Rightarrow> RTCPeerConnectionState \<Rightarrow> RTCService \<Rightarrow> RTCService" where
  "onconnectionstatechange pid cs w =
     (case Map_get (connections w) pid of
        None \<Rightarrow> w
      | Some pc \<Rightarrow>
          (case cs of
             cs_connected \<Rightarrow>
               let w1 = set_state pid CONNECTED w
               in if \<not> connected pc
                  then updatePeerCount (fireConnection pid (set_connected pid True w1))
                  else w1
           | cs_disconnected \<Rightarrow> lostConnection pid DISCONNECTED pc w
           | cs_failed \<Rightarrow> lostConnection pid FAILED pc w
           | cs_closed \<Rightarrow> lostConnection pid DISCONNECTED pc w
           | cs_new \<Rightarrow> w
           | cs_connecting \<Rightarrow> w))"

text \<open>\<open>channel.onopen\<close> and \<open>channel.onclose\<close> as \<open>setupDataChannel\<close> installs them
  (lines 450--479).\<close>

definition channel_onopen :: "string \<Rightarrow> RTCService \<Rightarrow> RTCService" where
  "channel_onopen pid w =
     (case Map_get (connections w) pid of
        None \<Rightarrow> w
      | Some pc \<Rightarrow>
          updatePeerCount (fireConnection pid (set_state pid CONNECTED (set_connected pid True w))))"

definition channel_onclose :: "string \<Rightarrow> RTCService \<Rightarrow> RTCService" where
  "channel_onclose pid w =
     (case Map_get (connections w) pid of
        None \<Rightarrow> w
      | Some pc \<Rightarrow>
          updatePeerCount
            (fireDisconnection pid (set_state pid DISCONNECTED (set_connected pid False w))))"

text \<open>\<open>connection.oniceconnectionstatechange\<close> when the ICE state is \<open>'failed'\<close>
  (lines 174--189).\<close>

definition oniceconnectionfailed :: "string \<Rightarrow> bool \<Rightarrow> bool \<Rightarrow> RTCService \<Rightarrow> RTCService" where
  "oniceconnectionfailed pid isHost' isInitiator' w =
     (case Map_get (connections w) pid of
        None \<Rightarrow> w
      | Some pc \<Rightarrow> emit (SetTimeout (Reconnect pid isHost' isInitiator') 1000) (set_state pid FAILED w))"

text \<open>The ten-second timer of \<open>connectToPeer\<close> when it fires (lines 243--251).\<close>

definition connectTimeout :: "env \<Rightarrow> string \<Rightarrow> bool \<Rightarrow> bool \<Rightarrow> RTCService \<Rightarrow> RTCService" where
  "connectTimeout io pid isHost' isInitiator' w =
     (case Map_get (connections w) pid of
        None \<Rightarrow> w
      | Some pc \<Rightarrow>
          if \<not> connected pc \<and> state pc \<noteq> CONNECTED
          then connectToPeer io pid isHost' isInitiator' (set_state pid FAILED w)
          else w)"

text \<open>\<open>connection.ondatachannel\<close> (lines 254--260).\<close>

definition ondatachannel :: "string \<Rightarrow> handle \<Rightarrow> RTCService \<Rightarrow> RTCService" where
  "ondatachannel pid ch w = update_record pid (\<lambda>pc. pc\<lparr>dataChannel := Some ch\<rparr>) w"

text \<open>
  \<open>handlePeerJoin\<close> and \<open>start\<close> call \<open>connectToPeer\<close> without awaiting it: the call
  runs up to its first suspension, the caller goes on, and the rest of the call runs
  later. The only suspension that leaves work behind is the first \<open>await\<close> of
  \<open>createAndSendOffer\<close>, on \<open>createOffer()\<close>: by then the lock is taken, the state is
  \<open>CONNECTING\<close> and the browser has been asked for an offer. The three definitions
  below are \<open>createAndSendOffer\<close>, the \<open>try\<close> block of \<open>connectToPeer\<close> and
  \<open>connectToPeer\<close> up to that point; they return the connection whose offer is awaited,
  or \<open>None\<close> when the call has ended without asking for one.
\<close>

definition createAndSendOffer_begin :: "string \<Rightarrow> RTCService \<Rightarrow> RTCService \<times> handle option" where
  "createAndSendOffer_begin pid w =
     (case Map_get (connections w) pid of
        None \<Rightarrow> (w, None)
      | Some pc \<Rightarrow>
          if state pc = CONNECTED then (w, None)
          else if processingSignal pc
          then (emit (SetTimeout (RetryCreateAndSendOffer pid) 500) w, None)
          else
            let w1 = set_processingSignal pid True w
            in if state pc \<in> set [OFFER_SENT, OFFER_RECEIVED, ANSWER_SENT, ANSWER_RECEIVED, CONNECTED]
               then (set_processingSignal pid False w1, None)
               else (emit (CreateOffer (connection pc)) (set_state pid CONNECTING w1),
                     Some (connection pc)))"

definition createConnection_begin :: "env \<Rightarrow> string \<Rightarrow> bool \<Rightarrow> bool \<Rightarrow> RTCService \<Rightarrow> RTCService \<times> handle option" where
  "createConnection_begin io pid isHost' isInitiator' w =
     (case newPeerConnection io of
        Some e \<Rightarrow> (handleError e w, None)
      | None \<Rightarrow>
          let c = fresh w;
              w1 = emit (NewPeerConnection c) (w\<lparr>fresh := c + 1\<rparr>)
          in (case (if isInitiator' then createDataChannel io else None) of
                Some e \<Rightarrow> (handleError e w1, None)
              | None \<Rightarrow>
               let ch = (if isInitiator' then Some (fresh w1) else None);
                   w2 = (if isInitiator'
                         then emit (CreateDataChannel c (fresh w1)) (w1\<lparr>fresh := fresh w1 + 1\<rparr>)
                         else w1);
                   w3 = emit (TableSet pid)
                          (w2\<lparr>connections := Map_set pid
                                \<lparr>pc_peerId = pid, pc_isHost = isHost', connection = c,
                                 dataChannel = ch, isInitiator = isInitiator', connected = False,
                                 state = NEW, processingSignal = False\<rparr> (connections w2)\<rparr>);
                   w4 = emit (SetTimeout (ConnectTimeout pid isHost' isInitiator') 10000) w3
               in if isInitiator' then createAndSendOffer_begin pid w4 else (w4, None)))"

definition connectToPeer_begin :: "env \<Rightarrow> string \<Rightarrow> bool \<Rightarrow> bool \<Rightarrow> RTCService \<Rightarrow> RTCService \<times> handle option" where
  "connectToPeer_begin io pid isHost' isInitiator' w =
     (if pid = self_peerId w then (w, None)
      else case Map_get (connections w) pid of
             None \<Rightarrow> createConnection_begin io pid isHost' isInitiator' w
           | Some existing \<Rightarrow>
               if state existing \<noteq> DISCONNECTED \<and> state existing \<noteq> FAILED then (w, None)
               else createConnection_begin io pid isHost' isInitiator' (cleanup pid existing w))"

text \<open>The rest of \<open>createAndSendOffer\<close>, from the moment \<open>createOffer()\<close> on connection
  \<open>c\<close> settles (lines 311--326), and with it the rest of the \<open>connectToPeer\<close> that
  called it.\<close>

definition createAndSendOffer_resume :: "env \<Rightarrow> string \<Rightarrow> handle \<Rightarrow> RTCService \<Rightarrow> RTCService" where
  "createAndSendOffer_resume io pid c w =
     set_processingSignal pid False
       (case createOffer io of
          Inl e \<Rightarrow> handleError e w
        | Inr off \<Rightarrow>
            let w4 = emit (SetLocalDescription c off) w
            in (case setLocalDescription io of
                  Some e \<Rightarrow> handleError e w4
                | None \<Rightarrow> signaling_sendOffer io pid off (set_state pid OFFER_SENT w4)))"

definition connectToPeer_resume :: "env \<Rightarrow> string \<Rightarrow> handle option \<Rightarrow> RTCService \<Rightarrow> RTCService" where
  "connectToPeer_resume io pid k w =
     (case k of None \<Rightarrow> w | Some c \<Rightarrow> createAndSendOffer_resume io pid c w)"

text \<open>\<open>handlePeerJoin\<close> (lines 103--111): the count is reported while the offer is
  awaited.\<close>

definition handlePeerJoin :: "env \<Rightarrow> Peer \<Rightarrow> RTCService \<Rightarrow> RTCService" where
  "handlePeerJoin io peer w =
     (case peer of
        Peer pid h \<Rightarrow>
          if self_isHost w
          then let b = connectToPeer_begin io pid h True w
               in connectToPeer_resume io pid (snd b) (updatePeerCount (fst b))
          else updatePeerCount w)"

text \<open>The loop of \<open>start\<close> over the peers (lines 91--93): every connection attempt is
  begun in turn. The attempts left waiting for their offer are finished afterwards, in
  the same order, each run to its end.\<close>

fun begin_all :: "(env \<times> Peer) list \<Rightarrow> RTCService \<Rightarrow> RTCService \<times> (env \<times> string \<times> handle option) list" where
  "begin_all [] w = (w, [])"
| "begin_all ((io, Peer pid h) # ps) w =
     (let b = connectToPeer_begin io pid h True w;
          r = begin_all ps (fst b)
      in (fst r, (io, pid, snd b) # snd r))"

fun resume_all :: "(env \<times> string \<times> handle option) list \<Rightarrow> RTCService \<Rightarrow> RTCService" where
  "resume_all [] w = w"
| "resume_all ((io, pid, k) # ks) w = resume_all ks (connectToPeer_resume io pid k w)"

text \<open>\<open>start\<close> (lines 84--100), once \<open>signaling.join\<close> has resolved: with the list of
  peers, each with the results of the calls its connection attempt makes, or, when the
  join fails with \<open>e\<close>, with the empty list after the signaling client has reported
  \<open>e\<close>. The count is reported once every attempt has been begun, before any of them
  goes on.\<close>

definition start :: "error + (env \<times> Peer) list \<Rightarrow> RTCService \<Rightarrow> RTCService" where
  "start r w =
     (case r of
        Inl e \<Rightarrow> updatePeerCount (handleSignalingError e w)
      | Inr ps \<Rightarrow>
          if self_isHost w
          then let b = begin_all ps w
               in resume_all (snd b) (updatePeerCount (fst b))
          else updatePeerCount w)"

text \<open>\<open>stop\<close> (lines 548--561).\<close>

definition stop_events :: "PeerConnection \<Rightarrow> event list" where
  "stop_events pc =
     (case dataChannel pc of None \<Rightarrow> [] | Some ch \<Rightarrow> [CloseChannel ch])
     @ [CloseConnection (connection pc)]"

definition stop :: "RTCService \<Rightarrow> RTCService" where
  "stop w =
     w\<lparr>connections := [],
       trace := trace w @ concat (map stop_events (Map_values (connections w))) @ [SignalingStop]\<rparr>"

text \<open>
  Everything that changes a running service: its start, a signaling callback, a
  browser notification, a timer that fires, its stop. Each comes with the results of
  the browser calls its handler makes. (\<open>sendToPeer\<close>, \<open>broadcast\<close> and the message
  handler of a channel leave the table and the records as they are.)
\<close>

datatype input =
    Started "error + (env \<times> Peer) list"
  | PeerJoined Peer
  | OfferArrived string sdp
  | AnswerArrived string sdp
  | ConnectionStateChanged string RTCPeerConnectionState
  | IceConnectionFailed string bool bool
  | DataChannelArrived string handle
  | ChannelOpened string
  | ChannelClosed string
  | TimerFired timer
  | Stopped

fun fire :: "env \<Rightarrow> timer \<Rightarrow> RTCService \<Rightarrow> RTCService" where
  "fire io (RetryCreateAndSendOffer pid) w = createAndSendOffer io pid w"
| "fire io (RetryHandleOffer pid off) w = handleOffer io pid off w"
| "fire io (RetryHandleAnswer pid ans) w = handleAnswer io pid ans w"
| "fire io (Reconnect pid h i) w = connectToPeer io pid h i w"
| "fire io (ConnectTimeout pid h i) w = connectTimeout io pid h i w"

fun step :: "RTCService \<Rightarrow> env \<times> input \<Rightarrow> RTCService" where
  "step w (io, Started r) = start r w"
| "step w (io, PeerJoined peer) = handlePeerJoin io peer w"
| "step w (io, OfferArrived pid off) = handleOffer io pid off w"
| "step w (io, AnswerArrived pid ans) = handleAnswer io pid ans w"
| "step w (io, ConnectionStateChanged pid cs) = onconnectionstatechange pid cs w"
| "step w (io, IceConnectionFailed pid h i) = oniceconnectionfailed pid h i w"
| "step w (io, DataChannelArrived pid ch) = ondatachannel pid ch w"
| "step w (io, ChannelOpened pid) = channel_onopen pid w"
| "step w (io, ChannelClosed pid) = channel_onclose pid w"
| "step w (io, TimerFired t) = fire io t w"
| "step w (io, Stopped) = stop w"

text \<open>The service as its constructor leaves it, but for the callbacks, which may be
  registered or not.\<close>

definition initial :: "string \<Rightarrow> bool \<Rightarrow> bool \<Rightarrow> bool \<Rightarrow> bool \<Rightarrow> bool \<Rightarrow> RTCService" where
  "initial self host onConn onDisc onErr onCount =
     \<lparr>self_peerId = self, self_isHost = host, connections = [],
      onConnectionCallback = onConn, onDisconnectionCallback = onDisc,
      onErrorCallback = onErr, onPeerCountChangeCallback = onCount,
      trace = [], fresh = 0\<rparr>"

definition terminal :: "ConnectionState \<Rightarrow> bool" where
  "terminal st = (st = DISCONNECTED \<or> st = FAILED)"

text \<open>The records the table holds for a peer that are not terminal.\<close>

definition nonterminal_records :: "RTCService \<Rightarrow> string \<Rightarrow> PeerConnection list" where
  "nonterminal_records w pid =
     map snd (filter (\<lambda>e. fst e = pid \<and> \<not> terminal (state (snd e))) (connections w))"


section \<open>Concrete requests and services\<close>

definition ex_offer :: "string request" where
  "ex_offer = \<lparr>action = ''offer'', roomId = ''R1'', peerId = ''A'', isHost = True,
     target = ''B'', offer = Some ''sdp-offer'', answer = None, lastPoll = None\<rparr>"

definition ex_answer :: "string request" where
  "ex_answer = \<lparr>action = ''answer'', roomId = ''R1'', peerId = ''A'', isHost = True,
     target = ''B'', offer = None, answer = Some ''sdp-answer'', lastPoll = None\<rparr>"

definition ex_join :: "string request" where
  "ex_join = \<lparr>action = ''join'', roomId = ''R1'', peerId = ''A'', isHost = True,
     target = [], offer = None, answer = None, lastPoll = None\<rparr>"

definition ex_poll :: "string \<Rightarrow> int option \<Rightarrow> string request" where
  "ex_poll pid lp = \<lparr>action = ''poll'', roomId = ''R1'', peerId = pid, isHost = False,
     target = [], offer = None, answer = None, lastPoll = lp\<rparr>"

definition ex_signal :: "int \<Rightarrow> string signal" where
  "ex_signal t = \<lparr>sender = ''A'', payload = ''sdp-offer'', timestamp = t\<rparr>"


definition ex_client :: SignalingService where
  "ex_client = \<lparr>lastPollTimestamp = 0, active = False, polling = False\<rparr>"

text \<open>Browser calls that all succeed.\<close>

definition ex_env :: env where
  "ex_env = \<lparr>newPeerConnection = None, createDataChannel = None,
     createOffer = Inr ''local-offer'', createAnswer = Inr ''local-answer'',
     newSessionDescription = None, setLocalDescription = None,
     setRemoteDescription = None, sendOffer = None, sendAnswer = None\<rparr>"

text \<open>The browser refuses the remote description; the browser fails to create an
  offer.\<close>

definition ex_env_reject :: env where
  "ex_env_reject = ex_env\<lparr>setRemoteDescription := Some (Error ''InvalidAccessError'')\<rparr>"

definition ex_env_nooffer :: env where
  "ex_env_nooffer = ex_env\<lparr>createOffer := Inl (Error ''OperationError'')\<rparr>"

text \<open>A record for peer \<open>''B''\<close> in a given state, with or without the lock held.\<close>

definition ex_record :: "ConnectionState \<Rightarrow> bool \<Rightarrow> PeerConnection" where
  "ex_record st lock =
     \<lparr>pc_peerId = ''B'', pc_isHost = False, connection = 0, dataChannel = Some 1,
      isInitiator = True, connected = False, state = st, processingSignal = lock\<rparr>"

definition ex_service :: "ConnectionState \<Rightarrow> bool \<Rightarrow> RTCService" where
  "ex_service st lock =
     \<lparr>self_peerId = ''A'', self_isHost = True, connections = [(''B'', ex_record st lock)],
      onConnectionCallback = True, onDisconnectionCallback = True,
      onErrorCallback = True, onPeerCountChangeCallback = True,
      trace = [], fresh = 2\<rparr>"

text \<open>A participant \<open>P\<close> that has just made its record for the host \<open>H\<close>, as
  \<open>handleOffer\<close> makes it for an unknown sender.\<close>

definition ex_guest :: RTCService where
  "ex_guest = connectToPeer ex_env ''H'' False False (initial ''P'' False True True True True)"


section \<open>Properties of the table operations\<close>

lemma map_of_Map_set [simp]:
  "map_of (Map_set k v m) k' = (if k' = k then Some v else map_of m k')"
  by (induction m) auto

lemma Map_get_Map_set:
  "Map_get (Map_set k v m) k' = (if k' = k then Some v else Map_get m k')"
  by (simp add: Map_get_def)

lemma Map_set_same: "map_of m k = Some v \<Longrightarrow> Map_set k v m = m"
  by (induction m) (auto split: if_splits)

lemma Map_set_Map_set: "Map_set k v (Map_set k v' m) = Map_set k v m"
  by (induction m) auto

lemma keys_Map_set_present: "map_of m k = Some v' \<Longrightarrow> Map_keys (Map_set k v m) = Map_keys m"
  by (induction m) (auto simp: Map_keys_def split: if_splits)

lemma Map_get_keys: "Map_get m k \<noteq> None \<longleftrightarrow> k \<in> set (Map_keys m)"
  by (simp add: Map_get_def Map_keys_def map_of_eq_None_iff)

lemma set_keys_Map_set: "set (Map_keys (Map_set k v m)) = insert k (set (Map_keys m))"
  by (induction m) (auto simp: Map_keys_def)

lemma distinct_Map_set:
  "distinct (Map_keys m) \<Longrightarrow> distinct (Map_keys (Map_set k v m))"
proof (induction m)
  case Nil
  then show ?case by (simp add: Map_keys_def)
next
  case (Cons e m)
  then show ?case
    using set_keys_Map_set[of k v m] by (auto simp: Map_keys_def)
qed

lemma distinct_Map_delete:
  "distinct (Map_keys m) \<Longrightarrow> distinct (Map_keys (Map_delete k m))"
  by (simp add: Map_keys_def Map_delete_def distinct_map_filter)

lemma Map_get_Map_delete: "Map_get (Map_delete k m) k = None"
  by (induction m) (auto simp: Map_get_def Map_delete_def)

lemma Map_has_get: "Map_has m k = (Map_get m k \<noteq> None)"
  by (simp add: Map_has_def Map_get_def)

lemma mailbox_Map_set:
  "mailbox (Map_set rid room rooms) rid pid = Map_get (peers room) pid"
  by (simp add: mailbox_def Map_get_Map_set)

lemma POST_valid:
  assumes "action body \<noteq> []" "roomId body \<noteq> []" "peerId body \<noteq> []"
  shows "POST rooms now body =
     (let r = (if action body = ''join'' then handle_join body (touch now body rooms)
               else if action body = ''offer'' then handle_offer now body (touch now body rooms)
               else if action body = ''answer'' then handle_answer now body (touch now body rooms)
               else if action body = ''poll'' then handle_poll now body (touch now body rooms)
               else (ErrorResponse ''Invalid action'' 400, touch now body rooms))
      in (fst r, Map_set (roomId body) (snd r) rooms))"
  using assms by (simp add: POST_def Let_def split_def)

lemma touch_peers:
  "Map_get (peers (touch now body rooms)) pid =
     (if pid = peerId body
      then Some ((case mailbox rooms (roomId body) (peerId body) of
                    None \<Rightarrow> \<lparr>info_peerId = peerId body, lastSeen = now, offers = [], answers = []\<rparr>
                  | Some p \<Rightarrow> p)\<lparr>lastSeen := now\<rparr>)
      else mailbox rooms (roomId body) pid)"
  by (auto simp: touch_def Let_def Map_get_Map_set mailbox_def Map_get_def split: option.splits)

lemma offer_deposit:
  assumes "action body = ''offer''" "roomId body \<noteq> []" "peerId body \<noteq> []"
    and "target body \<noteq> []" "offer body = Some off"
    and "mailbox rooms (roomId body) (target body) = None"
  shows "fst (POST rooms now body) = SuccessResponse True"
    and "\<exists>p. mailbox (snd (POST rooms now body)) (roomId body) (target body) = Some p \<and>
           offers p = [\<lparr>sender = peerId body, payload = off, timestamp = now\<rparr>]"
  using assms
  by (auto simp: POST_valid Let_def handle_offer_def mailbox_Map_set Map_get_Map_set Map_has_get touch_peers split: option.splits)

lemma answer_deposit:
  assumes "action body = ''answer''" "roomId body \<noteq> []" "peerId body \<noteq> []"
    and "target body \<noteq> []" "answer body = Some ans" "target body \<noteq> peerId body"
    and "mailbox rooms (roomId body) (target body) = None"
  shows "fst (POST rooms now body) = ErrorResponse ''Target peer not found'' 404"
    and "mailbox (snd (POST rooms now body)) (roomId body) (target body) = None"
  using assms
  by (auto simp: POST_valid Let_def handle_answer_def mailbox_Map_set Map_get_Map_set Map_has_get touch_peers split: option.splits)


lemma values_Map_set:
  "p \<in> set (Map_values (Map_set k v m)) \<Longrightarrow> p = v \<or> p \<in> set (Map_values m)"
  by (induction m) (auto simp: Map_values_def split: if_splits)

lemma Map_get_in_values: "Map_get m k = Some v \<Longrightarrow> v \<in> set (Map_values m)"
  by (auto simp: Map_get_def Map_values_def dest!: map_of_SomeD intro: image_eqI[where x="(k, v)"])


lemma stored_Map_set:
  "stored (Map_set rid room rooms) rid' = (if rid' = rid then room_records room else stored rooms rid')"
  by (simp add: stored_def Map_get_def)

lemma in_room_records:
  "r \<in> set (room_records room) \<longleftrightarrow>
     (\<exists>p \<in> set (Map_values (peers room)). r \<in> set (offers p) \<or> r \<in> set (answers p))"
  by (auto simp: room_records_def)

lemma touch_entry:
  assumes "p \<in> set (Map_values (peers (touch now body rooms)))"
  shows "(offers p = [] \<and> answers p = []) \<or>
         (\<exists>room p'. Map_get rooms (roomId body) = Some room \<and> p' \<in> set (Map_values (peers room)) \<and>
             offers p = offers p' \<and> answers p = answers p')"
proof (cases "Map_get rooms (roomId body)")
  case None
  with assms show ?thesis
    by (auto simp: touch_def Let_def Map_get_def Map_values_def)
next
  case (Some room)
  note room = this
  show ?thesis
  proof (cases "Map_get (peers room) (peerId body)")
    case None
    with room assms have "p = \<lparr>info_peerId = peerId body, lastSeen = now, offers = [], answers = []\<rparr>
        \<or> p \<in> set (Map_values (peers room))"
      by (auto simp: touch_def Let_def dest: values_Map_set)
    with room show ?thesis by auto
  next
    case (Some q)
    then have q: "q \<in> set (Map_values (peers room))"
      by (rule Map_get_in_values)
    from Some room assms have "p = q\<lparr>lastSeen := now\<rparr> \<or> p \<in> set (Map_values (peers room))"
      by (auto simp: touch_def Let_def dest: values_Map_set)
    with room q show ?thesis by auto
  qed
qed

lemma touch_records:
  "set (room_records (touch now body rooms)) \<subseteq> set (stored rooms (roomId body))"
proof
  fix r assume "r \<in> set (room_records (touch now body rooms))"
  then obtain p where p: "p \<in> set (Map_values (peers (touch now body rooms)))"
      and r: "r \<in> set (offers p) \<or> r \<in> set (answers p)"
    by (auto simp: in_room_records)
  from touch_entry[OF p] r show "r \<in> set (stored rooms (roomId body))"
    by (auto simp: stored_def in_room_records)
qed

lemma join_records: "room_records (snd (handle_join body room)) = room_records room"
  by (simp add: handle_join_def Let_def room_records_def)

lemma offer_records:
  assumes "r \<in> set (room_records (snd (handle_offer now body room)))"
  shows "r \<in> set (room_records room) \<or> timestamp r = now"
proof (cases "offer body = None \<or> target body = []")
  case True
  with assms show ?thesis by (auto simp: handle_offer_def split: option.splits)
next
  case False
  then obtain off where off: "offer body = Some off" and t: "target body \<noteq> []" by auto
  from assms obtain p where p: "p \<in> set (Map_values (peers (snd (handle_offer now body room))))"
      and r: "r \<in> set (offers p) \<or> r \<in> set (answers p)"
    by (auto simp: in_room_records)
  show ?thesis
  proof (cases "Map_get (peers room) (target body)")
    case None
    with off t p have "p = \<lparr>info_peerId = target body, lastSeen = now - 60000,
          offers = [\<lparr>sender = peerId body, payload = off, timestamp = now\<rparr>], answers = []\<rparr>
        \<or> p = \<lparr>info_peerId = target body, lastSeen = now - 60000, offers = [], answers = []\<rparr>
        \<or> p \<in> set (Map_values (peers room))"
      by (auto simp: handle_offer_def Let_def Map_has_get Map_get_Map_set dest!: values_Map_set)
    with r show ?thesis by (auto simp: in_room_records)
  next
    case (Some q)
    then have q: "q \<in> set (Map_values (peers room))" by (rule Map_get_in_values)
    from Some off t p have "p = q\<lparr>offers := offers q @ [\<lparr>sender = peerId body, payload = off, timestamp = now\<rparr>]\<rparr>
        \<or> p \<in> set (Map_values (peers room))"
      by (auto simp: handle_offer_def Let_def Map_has_get dest!: values_Map_set)
    with r q show ?thesis by (auto simp: in_room_records)
  qed
qed

lemma answer_records:
  assumes "r \<in> set (room_records (snd (handle_answer now body room)))"
  shows "r \<in> set (room_records room) \<or> timestamp r = now"
proof (cases "answer body = None \<or> target body = []")
  case True
  with assms show ?thesis by (auto simp: handle_answer_def split: option.splits)
next
  case False
  then obtain ans where ans: "answer body = Some ans" and t: "target body \<noteq> []" by auto
  from assms obtain p where p: "p \<in> set (Map_values (peers (snd (handle_answer now body room))))"
      and r: "r \<in> set (offers p) \<or> r \<in> set (answers p)"
    by (auto simp: in_room_records)
  show ?thesis
  proof (cases "Map_get (peers room) (target body)")
    case None
    with ans t assms show ?thesis by (simp add: handle_answer_def)
  next
    case (Some q)
    then have q: "q \<in> set (Map_values (peers room))" by (rule Map_get_in_values)
    from Some ans t p have "p = q\<lparr>answers := answers q @ [\<lparr>sender = peerId body, payload = ans, timestamp = now\<rparr>]\<rparr>
        \<or> p \<in> set (Map_values (peers room))"
      by (auto simp: handle_answer_def Let_def dest!: values_Map_set)
    with r q show ?thesis by (auto simp: in_room_records)
  qed
qed

lemma poll_records:
  "set (room_records (snd (handle_poll now body room))) =
     {r \<in> set (room_records room). now - 60000 < timestamp r}"
  by (auto simp: handle_poll_def Let_def in_room_records Map_values_def prune_def; force)

lemma poll_response_records:
  "set (response_offers (fst (handle_poll now body room))) \<union>
   set (response_answers (fst (handle_poll now body room))) \<subseteq>
     {r \<in> set (room_records room). cursor (lastPoll body) < timestamp r}"
  by (auto simp: handle_poll_def Let_def in_room_records)


lemma POST_invalid:
  "action body = [] \<or> roomId body = [] \<or> peerId body = [] \<Longrightarrow> POST rooms now body = (ErrorResponse ''Invalid request'' 400, rooms)"
  by (simp add: POST_def)

lemma POST_stored_other:
  "rid \<noteq> roomId body \<Longrightarrow> stored (snd (POST rooms now body)) rid = stored rooms rid"
  by (cases "action body = [] \<or> roomId body = [] \<or> peerId body = []")
     (auto simp: POST_invalid POST_valid Let_def stored_Map_set)

lemma POST_records:
  assumes "r \<in> set (stored (snd (POST rooms now body)) rid)"
  shows "r \<in> set (stored rooms rid) \<or> timestamp r = now"
proof (cases "action body = [] \<or> roomId body = [] \<or> peerId body = []")
  case True
  with assms show ?thesis by (simp add: POST_invalid)
next
  case False
  note valid = this
  show ?thesis
  proof (cases "rid = roomId body")
    case False
    with assms show ?thesis by (simp add: POST_stored_other)
  next
    case True
    have t: "\<And>x. x \<in> set (room_records (touch now body rooms)) \<Longrightarrow> x \<in> set (stored rooms rid)"
      using touch_records[of now body rooms] True by auto
    from assms valid True
    consider "r \<in> set (room_records (snd (handle_join body (touch now body rooms))))"
      | "r \<in> set (room_records (snd (handle_offer now body (touch now body rooms))))"
      | "r \<in> set (room_records (snd (handle_answer now body (touch now body rooms))))"
      | "r \<in> set (room_records (snd (handle_poll now body (touch now body rooms))))"
      | "r \<in> set (room_records (touch now body rooms))"
      by (auto simp: POST_valid Let_def stored_Map_set split: if_splits)
    then show ?thesis
    proof cases
      case 1 then show ?thesis using t by (simp add: join_records)
    next
      case 2 then show ?thesis using t offer_records by blast
    next
      case 3 then show ?thesis using t answer_records by blast
    next
      case 4 then show ?thesis using t by (simp add: poll_records)
    next
      case 5 then show ?thesis using t by simp
    qed
  qed
qed

lemma POST_keeps_younger:
  assumes "\<forall>r \<in> set (stored rooms rid). c < timestamp r" and "c < now"
  shows "\<forall>r \<in> set (stored (snd (POST rooms now body)) rid). c < timestamp r"
  using assms POST_records by blast

lemma POST_keys:
  "distinct (Map_keys rooms) \<Longrightarrow> distinct (Map_keys (snd (POST rooms now body)))"
  by (cases "action body = [] \<or> roomId body = [] \<or> peerId body = []")
     (auto simp: POST_invalid POST_valid Let_def distinct_Map_set)

lemma sweep_keys: "distinct (Map_keys rooms) \<Longrightarrow> distinct (Map_keys (sweep now rooms))"
  by (simp add: sweep_def Map_keys_def distinct_map_filter comp_def)

lemma sweep_room_records:
  "set (room_records (sweep_room now room)) \<subseteq> set (room_records room)"
  by (auto simp: in_room_records sweep_room_def Map_values_def; force)

lemma sweep_get:
  assumes "distinct (Map_keys rooms)" "Map_get (sweep now rooms) rid = Some room'"
  shows "\<exists>room. Map_get rooms rid = Some room \<and> room' = sweep_room now room"
proof -
  from assms(2) have "(rid, room') \<in> set (sweep now rooms)"
    by (simp add: Map_get_def map_of_SomeD)
  then obtain room where "(rid, room) \<in> set rooms" "room' = sweep_room now room"
    by (auto simp: sweep_def)
  with assms(1) show ?thesis
    by (simp add: Map_get_def Map_keys_def)
qed

lemma sweep_records:
  assumes "distinct (Map_keys rooms)"
  shows "set (stored (sweep now rooms) rid) \<subseteq> set (stored rooms rid)"
proof (cases "Map_get (sweep now rooms) rid")
  case None
  then show ?thesis by (simp add: stored_def)
next
  case (Some room')
  from sweep_get[OF assms Some] obtain room
    where "Map_get rooms rid = Some room" "room' = sweep_room now room" by auto
  with Some show ?thesis
    using sweep_room_records[of now room] by (simp add: stored_def)
qed

lemma serve_keeps_younger:
  assumes "distinct (Map_keys rooms)"
    and "\<forall>r \<in> set (stored rooms rid). c < timestamp r" and "\<forall>a \<in> set as. c < arrival_time a"
  shows "\<forall>r \<in> set (stored (serve rooms as) rid). c < timestamp r"
  using assms
proof (induction rooms as rule: serve.induct)
  case (1 rooms)
  then show ?case by simp
next
  case (2 rooms now q as)
  have "\<forall>r \<in> set (stored (snd (POST rooms now q)) rid). c < timestamp r"
    using "2.prems" by (intro POST_keeps_younger) auto
  with 2 show ?case by (simp add: POST_keys)
next
  case (3 rooms now as)
  have "\<forall>r \<in> set (stored (sweep now rooms) rid). c < timestamp r"
    using "3.prems" sweep_records[of rooms now rid] by auto
  with 3 show ?case by (simp add: sweep_keys)
qed

lemma poll_prunes:
  assumes "action body = ''poll''" "roomId body \<noteq> []" "peerId body \<noteq> []"
  shows "\<forall>r \<in> set (stored (snd (POST rooms now body)) (roomId body)). now - 60000 < timestamp r"
  using assms by (simp add: POST_valid Let_def stored_Map_set poll_records)

lemma poll_response_stored:
  assumes "action body = ''poll''" "roomId body \<noteq> []" "peerId body \<noteq> []"
    and "r \<in> set (response_offers (fst (POST rooms now body))) \<union>
             set (response_answers (fst (POST rooms now body)))"
  shows "r \<in> set (stored rooms (roomId body)) \<and> cursor (lastPoll body) < timestamp r"
proof -
  from assms have
    "r \<in> set (response_offers (fst (handle_poll now body (touch now body rooms)))) \<union>
         set (response_answers (fst (handle_poll now body (touch now body rooms))))"
    by (simp add: POST_valid Let_def)
  then have "r \<in> set (room_records (touch now body rooms)) \<and> cursor (lastPoll body) < timestamp r"
    using poll_response_records[of now body "touch now body rooms"] by blast
  then show ?thesis using touch_records[of now body rooms] by blast
qed



lemma poll_timestamp:
  assumes "action body = ''poll''" "roomId body \<noteq> []" "peerId body \<noteq> []"
  shows "response_timestamp (fst (POST rooms now body)) = Some now"
  using assms by (simp add: POST_valid Let_def handle_poll_def)















section \<open>The mailbox store: deposits, polls and retention\<close>

text \<open>
  Claim C4, as the code has it. A deposit names a target peer that has no mailbox in
  the room yet. For an offer the store creates the target's mailbox, puts the
  timestamped record into it and answers \<open>{success: true}\<close>. For an answer (to a target
  other than the sender, whose own mailbox every request creates) the store answers
  status 404, \<open>Target peer not found\<close>, and creates no mailbox: the answer is not kept.
\<close>

theorem deposit_into_missing_mailbox:
  assumes "roomId body \<noteq> []" "peerId body \<noteq> []" "target body \<noteq> []"
    and "mailbox rooms (roomId body) (target body) = None"
  shows "(action body = ''offer'' \<and> offer body = Some pl \<longrightarrow>
            fst (POST rooms now body) = SuccessResponse True \<and>
            (\<exists>p. mailbox (snd (POST rooms now body)) (roomId body) (target body) = Some p \<and>
                 offers p = [\<lparr>sender = peerId body, payload = pl, timestamp = now\<rparr>])) \<and>
         (action body = ''answer'' \<and> answer body = Some pl \<and> target body \<noteq> peerId body \<longrightarrow>
            fst (POST rooms now body) = ErrorResponse ''Target peer not found'' 404 \<and>
            mailbox (snd (POST rooms now body)) (roomId body) (target body) = None)"
  using offer_deposit[of body pl rooms now] answer_deposit[of body pl rooms now] assms
  by (intro conjI impI) simp_all

text \<open>Both halves at concrete requests: peer \<open>A\<close> sends an offer, and an answer, to a
  peer \<open>B\<close> that the empty store has never seen.\<close>

theorem deposit_into_missing_mailbox_witness:
  "roomId ex_offer \<noteq> [] \<and> peerId ex_offer \<noteq> [] \<and> target ex_offer \<noteq> [] \<and>
   mailbox [] (roomId ex_offer) (target ex_offer) = None \<and>
   action ex_offer = ''offer'' \<and> offer ex_offer = Some ''sdp-offer'' \<and>
   fst (POST [] 1000 ex_offer) = SuccessResponse True \<and>
   (\<exists>p. mailbox (snd (POST [] 1000 ex_offer)) ''R1'' ''B'' = Some p \<and> offers p = [ex_signal 1000]) \<and>
   action ex_answer = ''answer'' \<and> answer ex_answer = Some ''sdp-answer'' \<and>
   target ex_answer \<noteq> peerId ex_answer \<and>
   fst (POST [] 1000 ex_answer) = ErrorResponse ''Target peer not found'' 404 \<and>
   mailbox (snd (POST [] 1000 ex_answer)) ''R1'' ''B'' = None"
  using deposit_into_missing_mailbox[of ex_offer "[]" "''sdp-offer''" 1000]
        deposit_into_missing_mailbox[of ex_answer "[]" "''sdp-answer''" 1000]
  by (simp add: ex_offer_def ex_answer_def ex_signal_def mailbox_def Map_get_def)

text \<open>C4 as stated fails for answers: the answer for the unknown peer \<open>B\<close> is refused
  and \<open>B\<close> still has no mailbox afterwards.\<close>

theorem answer_deposit_counterexample:
  "mailbox [] (roomId ex_answer) (target ex_answer) = None \<and>
   fst (POST [] 1000 ex_answer) \<noteq> SuccessResponse True \<and>
   mailbox (snd (POST [] 1000 ex_answer)) (roomId ex_answer) (target ex_answer) = None"
  by code_simp

text \<open>
  Claim C5, as the code has it. A poll computes its response first and prunes
  afterwards. Once some poll of the room has been handled at a time \<open>now1\<close> with
  \<open>t + 60000 \<le> now1\<close>, a record with timestamp \<open>t\<close> is gone from the room, and no poll
  handled after that returns it, whatever requests and clean-up runs come in between
  (the clock not running backwards). The table of rooms has distinct keys, as every
  \<open>Map\<close> has.
\<close>

theorem retention_after_prune:
  assumes "distinct (Map_keys rooms)"
    and "action b1 = ''poll''" "roomId b1 \<noteq> []" "peerId b1 \<noteq> []"
    and "\<forall>a \<in> set as. now1 \<le> arrival_time a"
    and "action b2 = ''poll''" "roomId b2 = roomId b1" "peerId b2 \<noteq> []"
    and "t + 60000 \<le> now1" "timestamp r = t"
  shows "r \<notin> set (response_offers (fst (POST (serve (snd (POST rooms now1 b1)) as) now2 b2))) \<and>
         r \<notin> set (response_answers (fst (POST (serve (snd (POST rooms now1 b1)) as) now2 b2)))"
proof -
  let ?s = "serve (snd (POST rooms now1 b1)) as"
  have "distinct (Map_keys (snd (POST rooms now1 b1)))"
    using assms(1) by (rule POST_keys)
  moreover have "\<forall>r \<in> set (stored (snd (POST rooms now1 b1)) (roomId b1)). now1 - 60000 < timestamp r"
    using assms(2-4) by (rule poll_prunes)
  moreover have "\<forall>a \<in> set as. now1 - 60000 < arrival_time a"
    using assms(5) by auto
  ultimately have young: "\<forall>r \<in> set (stored ?s (roomId b1)). now1 - 60000 < timestamp r"
    by (rule serve_keeps_younger)
  have "r \<notin> set (stored ?s (roomId b2))"
    using young assms(7,9,10) by auto
  then show ?thesis
    using poll_response_stored[of b2 r ?s now2] assms(3,6-8) by auto
qed

theorem retention_after_prune_witness:
  "action (ex_poll ''B'' None) = ''poll'' \<and> roomId (ex_poll ''B'' None) \<noteq> [] \<and>
   peerId (ex_poll ''B'' None) \<noteq> [] \<and>
   distinct (Map_keys (snd (POST ([]::string rooms) 1000 ex_offer))) \<and>
   (100000::int) \<le> arrival_time (Sweep 100001 :: string arrival) \<and>
   (100000::int) \<le> arrival_time (Request 100002 ex_offer) \<and>
   (1000::int) + 60000 \<le> 100000 \<and> timestamp (ex_signal 1000) = 1000 \<and>
   ex_signal 1000 \<in> set (stored (snd (POST [] 1000 ex_offer)) ''R1'') \<and>
   ex_signal 1000 \<notin> set (response_offers (fst (POST
      (serve (snd (POST (snd (POST [] 1000 ex_offer)) 100000 (ex_poll ''B'' None)))
         [Sweep 100001, Request 100002 ex_offer])
      100003 (ex_poll ''B'' None)))) \<and>
   ex_signal 1000 \<notin> set (response_answers (fst (POST
      (serve (snd (POST (snd (POST [] 1000 ex_offer)) 100000 (ex_poll ''B'' None)))
         [Sweep 100001, Request 100002 ex_offer])
      100003 (ex_poll ''B'' None))))"
proof -
  have s: "ex_signal 1000 \<in> set (stored (snd (POST [] 1000 ex_offer)) ''R1'')"
    by code_simp
  have h: "action (ex_poll ''B'' None) = ''poll''" "roomId (ex_poll ''B'' None) \<noteq> []"
    "peerId (ex_poll ''B'' None) \<noteq> []"
    "\<forall>a \<in> set [Sweep 100001, Request 100002 ex_offer]. (100000::int) \<le> arrival_time a"
    "roomId (ex_poll ''B'' None) = roomId (ex_poll ''B'' None)"
    "(1000::int) + 60000 \<le> 100000" "timestamp (ex_signal 1000) = 1000"
    by (simp_all add: ex_poll_def ex_signal_def)
  have d: "distinct (Map_keys (snd (POST ([]::string rooms) 1000 ex_offer)))"
    by code_simp
  show ?thesis
    using retention_after_prune[OF d h(1-4) h(1) h(5) h(3) h(6,7), of 100003] s h d
    by simp
qed

text \<open>C5 as stated fails for the first poll after the retention window: the offer
  deposited at time 1000 is still returned by a poll handled at time 100000, whose
  cursor is older than the record.\<close>

theorem retention_counterexample:
  "(1000::int) + 60000 < 100000 \<and>
   ex_signal 1000 \<in> set (stored (snd (POST [] 1000 ex_offer)) ''R1'') \<and>
   ex_signal 1000 \<in> set (response_offers (fst (POST (snd (POST [] 1000 ex_offer)) 100000 (ex_poll ''B'' None))))"
  by code_simp

text \<open>
  Claim C6. A peer polls with cursor \<open>t1\<close> and is told the server time \<open>t2\<close>, with
  \<open>t1 < t2\<close>; whatever requests and clean-up runs the store handles next, the same
  peer's following poll with cursor \<open>t2\<close> returns no offer and no answer whose
  timestamp is at most \<open>t1\<close>.
\<close>

theorem poll_monotonic:
  assumes "action b1 = ''poll''" "roomId b1 \<noteq> []" "peerId b1 \<noteq> []" "lastPoll b1 = Some t1"
    and "response_timestamp (fst (POST rooms now1 b1)) = Some t2"
    and "t1 < t2"
    and "action b2 = ''poll''" "roomId b2 = roomId b1" "peerId b2 = peerId b1" "lastPoll b2 = Some t2"
    and "r \<in> set (response_offers (fst (POST (serve (snd (POST rooms now1 b1)) as) now2 b2))) \<union>
             set (response_answers (fst (POST (serve (snd (POST rooms now1 b1)) as) now2 b2)))"
  shows "\<not> timestamp r \<le> t1"
proof -
  have "cursor (lastPoll b2) < timestamp r"
    using poll_response_stored[of b2 r "serve (snd (POST rooms now1 b1)) as" now2] assms by simp
  with assms show ?thesis by (simp add: cursor_def)
qed

theorem poll_monotonic_witness:
  "action (ex_poll ''B'' (Some 500)) = ''poll'' \<and> lastPoll (ex_poll ''B'' (Some 500)) = Some 500 \<and>
   response_timestamp (fst (POST (snd (POST [] 1000 ex_offer)) 2000 (ex_poll ''B'' (Some 500)))) = Some 2000 \<and>
   (500::int) < 2000 \<and>
   ex_signal 2500 \<in> set (response_offers (fst (POST
      (serve (snd (POST (snd (POST [] 1000 ex_offer)) 2000 (ex_poll ''B'' (Some 500))))
         [Sweep 2200, Request 2500 ex_offer])
      3000 (ex_poll ''B'' (Some 2000))))) \<and>
   \<not> timestamp (ex_signal 2500) \<le> 500"
proof -
  have h: "action (ex_poll ''B'' (Some 500)) = ''poll''" "roomId (ex_poll ''B'' (Some 500)) \<noteq> []"
    "peerId (ex_poll ''B'' (Some 500)) \<noteq> []" "lastPoll (ex_poll ''B'' (Some 500)) = Some 500"
    "action (ex_poll ''B'' (Some 2000)) = ''poll''"
    "roomId (ex_poll ''B'' (Some 2000)) = roomId (ex_poll ''B'' (Some 500))"
    "peerId (ex_poll ''B'' (Some 2000)) = peerId (ex_poll ''B'' (Some 500))"
    "lastPoll (ex_poll ''B'' (Some 2000)) = Some 2000" "(500::int) < 2000"
    by (simp_all add: ex_poll_def)
  have t: "response_timestamp (fst (POST (snd (POST [] 1000 ex_offer)) 2000 (ex_poll ''B'' (Some 500)))) = Some 2000"
    by code_simp
  have r: "ex_signal 2500 \<in> set (response_offers (fst (POST
      (serve (snd (POST (snd (POST [] 1000 ex_offer)) 2000 (ex_poll ''B'' (Some 500))))
         [Sweep 2200, Request 2500 ex_offer])
      3000 (ex_poll ''B'' (Some 2000))))) \<union> set (response_answers (fst (POST
      (serve (snd (POST (snd (POST [] 1000 ex_offer)) 2000 (ex_poll ''B'' (Some 500))))
         [Sweep 2200, Request 2500 ex_offer])
      3000 (ex_poll ''B'' (Some 2000)))))"
    by code_simp
  have r': "ex_signal 2500 \<in> set (response_offers (fst (POST
      (serve (snd (POST (snd (POST [] 1000 ex_offer)) 2000 (ex_poll ''B'' (Some 500))))
         [Sweep 2200, Request 2500 ex_offer])
      3000 (ex_poll ''B'' (Some 2000)))))"
    by code_simp
  show ?thesis
    using poll_monotonic[OF h(1-4) t h(9) h(5-8) r] h t r' by simp
qed

text \<open>
  Claim C9, as the code has it. The response to a join carries the fields \<open>success\<close>,
  \<open>peers\<close>, \<open>isHost\<close> and \<open>hostPeerId\<close> and no timestamp, and the client's \<open>join\<close> sets
  its cursor \<open>lastPollTimestamp\<close> from its own clock.
\<close>

theorem join_response_fields:
  assumes "action body = ''join''" "roomId body \<noteq> []" "peerId body \<noteq> []"
  shows "(\<exists>ps h hp. fst (POST rooms now body) = JoinResponse True ps h hp) \<and>
         response_timestamp (fst (POST rooms now body)) = None \<and>
         lastPollTimestamp (snd (join svc clientNow (Some (fst (POST rooms now body))))) = clientNow"
  using assms by (simp add: POST_valid Let_def handle_join_def join_def)

theorem join_response_fields_witness:
  "action ex_join = ''join'' \<and> roomId ex_join \<noteq> [] \<and> peerId ex_join \<noteq> [] \<and>
   fst (POST [] 5000 ex_join) = JoinResponse True [] True (Some ''A'') \<and>
   response_timestamp (fst (POST [] 5000 ex_join)) = None \<and>
   lastPollTimestamp (snd (join ex_client 9999 (Some (fst (POST [] 5000 ex_join))))) = 9999"
proof -
  have h: "action ex_join = ''join''" "roomId ex_join \<noteq> []" "peerId ex_join \<noteq> []"
    by (simp_all add: ex_join_def)
  have e: "fst (POST [] 5000 ex_join) = JoinResponse True [] True (Some ''A'')"
    by code_simp
  show ?thesis
    using join_response_fields[OF h, of "[]" 5000 ex_client 9999] h e by simp
qed

text \<open>C9 as stated fails: the server handles the join at time 5000, its response has
  no timestamp, and the client, whose clock reads 9999, starts polling from 9999.\<close>

theorem join_timestamp_counterexample:
  "response_timestamp (fst (POST [] 5000 ex_join)) \<noteq> Some 5000 \<and>
   lastPollTimestamp (snd (join ex_client 9999 (Some (fst (POST [] 5000 ex_join))))) \<noteq> 5000"
  by code_simp





section \<open>Properties of the negotiation handlers\<close>




lemma emit_fields [simp]:
  "connections (emit ev w) = connections w"
  "trace (emit ev w) = trace w @ [ev]"
  "fresh (emit ev w) = fresh w"
  "self_peerId (emit ev w) = self_peerId w"
  "self_isHost (emit ev w) = self_isHost w"
  "onConnectionCallback (emit ev w) = onConnectionCallback w"
  "onDisconnectionCallback (emit ev w) = onDisconnectionCallback w"
  "onErrorCallback (emit ev w) = onErrorCallback w"
  "onPeerCountChangeCallback (emit ev w) = onPeerCountChangeCallback w"
  by (simp_all add: emit_def)

lemma update_record_fields [simp]:
  "trace (update_record pid f w) = trace w"
  "fresh (update_record pid f w) = fresh w"
  "self_peerId (update_record pid f w) = self_peerId w"
  "self_isHost (update_record pid f w) = self_isHost w"
  "onConnectionCallback (update_record pid f w) = onConnectionCallback w"
  "onDisconnectionCallback (update_record pid f w) = onDisconnectionCallback w"
  "onErrorCallback (update_record pid f w) = onErrorCallback w"
  "onPeerCountChangeCallback (update_record pid f w) = onPeerCountChangeCallback w"
  by (simp_all add: update_record_def split: option.splits)

lemma update_record_get:
  "Map_get (connections (update_record pid f w)) k =
     (if k = pid then map_option f (Map_get (connections w) pid) else Map_get (connections w) k)"
  by (auto simp: update_record_def Map_get_def split: option.splits)

lemma update_record_keys [simp]:
  "Map_keys (connections (update_record pid f w)) = Map_keys (connections w)"
  by (auto simp: update_record_def Map_get_def keys_Map_set_present split: option.splits)

lemma update_record_present:
  "Map_get (connections w) pid = Some pc \<Longrightarrow>
     update_record pid f w = w\<lparr>connections := Map_set pid (f pc) (connections w)\<rparr>"
  by (simp add: update_record_def)

lemma handleError_fields [simp]:
  "connections (handleError e w) = connections w"
  "fresh (handleError e w) = fresh w"
  "self_peerId (handleError e w) = self_peerId w"
  "self_isHost (handleError e w) = self_isHost w"
  "onConnectionCallback (handleError e w) = onConnectionCallback w"
  "onDisconnectionCallback (handleError e w) = onDisconnectionCallback w"
  "onErrorCallback (handleError e w) = onErrorCallback w"
  "onPeerCountChangeCallback (handleError e w) = onPeerCountChangeCallback w"
  by (simp_all add: handleError_def)

lemma handleSignalingError_fields [simp]:
  "connections (handleSignalingError e w) = connections w"
  "fresh (handleSignalingError e w) = fresh w"
  "self_peerId (handleSignalingError e w) = self_peerId w"
  "self_isHost (handleSignalingError e w) = self_isHost w"
  "onErrorCallback (handleSignalingError e w) = onErrorCallback w"
  by (simp_all add: handleSignalingError_def)

lemma signaling_send_fields [simp]:
  "connections (signaling_sendOffer io p sd w) = connections w"
  "connections (signaling_sendAnswer io p sd w) = connections w"
  "trace (signaling_sendOffer io p sd w) = trace w @ [SendOffer p sd] @ error_report (sendOffer io) w"
  "trace (signaling_sendAnswer io p sd w) = trace w @ [SendAnswer p sd] @ error_report (sendAnswer io) w"
  by (simp_all add: signaling_sendOffer_def signaling_sendAnswer_def Let_def error_report_def
        handleSignalingError_def handleError_def split: option.splits)

lemma set_state_fields [simp]:
  "trace (set_state pid st w) = trace w @ [StateChange pid st]"
  "fresh (set_state pid st w) = fresh w"
  "self_peerId (set_state pid st w) = self_peerId w"
  "self_isHost (set_state pid st w) = self_isHost w"
  "onConnectionCallback (set_state pid st w) = onConnectionCallback w"
  "onDisconnectionCallback (set_state pid st w) = onDisconnectionCallback w"
  "onErrorCallback (set_state pid st w) = onErrorCallback w"
  "onPeerCountChangeCallback (set_state pid st w) = onPeerCountChangeCallback w"
  "Map_keys (connections (set_state pid st w)) = Map_keys (connections w)"
  by (simp_all add: set_state_def)

lemma set_state_get:
  "Map_get (connections (set_state pid st w)) k =
     (if k = pid then map_option (\<lambda>pc. pc\<lparr>state := st\<rparr>) (Map_get (connections w) pid)
      else Map_get (connections w) k)"
  by (simp add: set_state_def update_record_get)

lemma set_processingSignal_fields [simp]:
  "trace (set_processingSignal pid b w) = trace w"
  "fresh (set_processingSignal pid b w) = fresh w"
  "self_peerId (set_processingSignal pid b w) = self_peerId w"
  "self_isHost (set_processingSignal pid b w) = self_isHost w"
  "onConnectionCallback (set_processingSignal pid b w) = onConnectionCallback w"
  "onDisconnectionCallback (set_processingSignal pid b w) = onDisconnectionCallback w"
  "onErrorCallback (set_processingSignal pid b w) = onErrorCallback w"
  "onPeerCountChangeCallback (set_processingSignal pid b w) = onPeerCountChangeCallback w"
  "Map_keys (connections (set_processingSignal pid b w)) = Map_keys (connections w)"
  by (simp_all add: set_processingSignal_def)

lemma set_processingSignal_get:
  "Map_get (connections (set_processingSignal pid b w)) k =
     (if k = pid then map_option (\<lambda>pc. pc\<lparr>processingSignal := b\<rparr>) (Map_get (connections w) pid)
      else Map_get (connections w) k)"
  by (simp add: set_processingSignal_def update_record_get)

lemma lock_unlock:
  assumes "Map_get (connections w) pid = Some pc" "\<not> processingSignal pc"
  shows "set_processingSignal pid False (set_processingSignal pid True w) = w"
proof -
  have "pc\<lparr>processingSignal := False\<rparr> = pc" using assms(2) by simp
  then show ?thesis
    using assms(1)
    by (simp add: set_processingSignal_def update_record_def Map_get_def Map_set_Map_set Map_set_same)
qed

lemma error_report_fields [simp]:
  "error_report r (emit ev w) = error_report r w"
  "error_report r (update_record p f w) = error_report r w"
  "error_report r (set_state p st w) = error_report r w"
  "error_report r (set_processingSignal p b w) = error_report r w"
  "error_report None w = []"
  by (simp_all add: error_report_def split: option.splits)

lemma acceptOffer_invalid:
  "state pc \<in> {OFFER_SENT, ANSWER_RECEIVED, CONNECTED} \<Longrightarrow> acceptOffer io p off pc w = (w, None)"
  by (auto simp: acceptOffer_def)

lemma acceptOffer_success:
  assumes "state pc \<notin> {OFFER_SENT, ANSWER_RECEIVED, CONNECTED}"
    and "newSessionDescription io = None" "setRemoteDescription io = None"
    and "createAnswer io = Inr ans" "setLocalDescription io = None"
  shows "acceptOffer io p off pc w =
    (signaling_sendAnswer io p ans (set_state p ANSWER_SENT
       (emit (SetLocalDescription (connection pc) ans) (emit (CreateAnswer (connection pc))
          (emit (SetRemoteDescription (connection pc) off) (set_state p OFFER_RECEIVED w))))), None)"
  using assms by (auto simp: acceptOffer_def Let_def)

lemma handleOffer_existing:
  assumes "Map_get (connections w) p = Some pc" "\<not> processingSignal pc" "state pc \<noteq> CONNECTED"
  shows "handleOffer io p off w =
     (let r = acceptOffer io p off pc (set_processingSignal p True w);
          w1 = set_processingSignal p False (fst r)
      in (case snd r of None \<Rightarrow> w1 | Some e \<Rightarrow> handleError e w1))"
  using assms by (simp add: handleOffer_def Let_def)


lemma set_processingSignal_result:
  assumes "p \<in> set (Map_keys (connections w))"
  shows "\<exists>pc'. Map_get (connections (set_processingSignal p b w)) p = Some pc' \<and> processingSignal pc' = b"
proof -
  from assms obtain pc where "Map_get (connections w) p = Some pc"
    using Map_get_keys[of "connections w" p] by auto
  then show ?thesis by (simp add: set_processingSignal_get)
qed

lemma createAndSendOffer_acquired:
  assumes "Map_get (connections w) p = Some pc" "\<not> processingSignal pc" "state pc \<noteq> CONNECTED"
  shows "createAndSendOffer io p w =
     set_processingSignal p False
       (if state pc \<in> {OFFER_SENT, OFFER_RECEIVED, ANSWER_SENT, ANSWER_RECEIVED, CONNECTED}
        then set_processingSignal p True w
        else (case createOffer io of
                Inl e \<Rightarrow> handleError e (emit (CreateOffer (connection pc))
                           (set_state p CONNECTING (set_processingSignal p True w)))
              | Inr off \<Rightarrow>
                  (case setLocalDescription io of
                     Some e \<Rightarrow> handleError e (emit (SetLocalDescription (connection pc) off)
                        (emit (CreateOffer (connection pc))
                           (set_state p CONNECTING (set_processingSignal p True w))))
                   | None \<Rightarrow> signaling_sendOffer io p off (set_state p OFFER_SENT
                        (emit (SetLocalDescription (connection pc) off)
                          (emit (CreateOffer (connection pc))
                             (set_state p CONNECTING (set_processingSignal p True w))))))))"
  using assms by (auto simp: createAndSendOffer_def Let_def split: sum.splits option.splits)

lemma createAndSendOffer_keys:
  "Map_keys (connections (createAndSendOffer io p w)) = Map_keys (connections w)"
  by (simp add: createAndSendOffer_def Let_def split: option.splits sum.splits)

lemma createAndSendOffer_releases:
  assumes "Map_get (connections w) p = Some pc" "\<not> processingSignal pc" "state pc \<noteq> CONNECTED"
  shows "\<exists>pc'. Map_get (connections (createAndSendOffer io p w)) p = Some pc' \<and> \<not> processingSignal pc'"
proof -
  have k: "p \<in> set (Map_keys (connections w))"
    using assms(1) Map_get_keys[of "connections w" p] by simp
  have "\<And>x. Map_keys (connections x) = Map_keys (connections w) \<Longrightarrow>
      \<exists>pc'. Map_get (connections (set_processingSignal p False x)) p = Some pc' \<and> processingSignal pc' = False"
    using k by (intro set_processingSignal_result) simp
  then show ?thesis
    unfolding createAndSendOffer_acquired[OF assms]
    by (simp split: sum.splits option.splits)
qed

lemma createAndSendOffer_invalid:
  assumes "Map_get (connections w) p = Some pc"
    and "state pc \<in> {OFFER_SENT, OFFER_RECEIVED, ANSWER_SENT, ANSWER_RECEIVED, CONNECTED}"
  shows "createAndSendOffer io p w = w \<or>
         createAndSendOffer io p w = emit (SetTimeout (RetryCreateAndSendOffer p) 500) w"
proof (cases "state pc = CONNECTED \<or> processingSignal pc")
  case True
  with assms(1) show ?thesis by (auto simp: createAndSendOffer_def)
next
  case False
  then have "createAndSendOffer io p w = w"
    using assms by (simp add: createAndSendOffer_acquired lock_unlock del: insert_iff)
  then show ?thesis ..
qed

lemma createAndSendOffer_starts:
  assumes "Map_get (connections w) p = Some pc" "\<not> processingSignal pc"
    and "state pc \<notin> {OFFER_SENT, OFFER_RECEIVED, ANSWER_SENT, ANSWER_RECEIVED, CONNECTED}"
  shows "\<exists>rest. trace (createAndSendOffer io p w) =
           trace w @ [StateChange p CONNECTING, CreateOffer (connection pc)] @ rest"
proof -
  have nc: "state pc \<noteq> CONNECTED" using assms(3) by auto
  show ?thesis
    unfolding createAndSendOffer_acquired[OF assms(1,2) nc]
    using assms(3) by (simp add: handleError_def split: sum.splits option.splits del: insert_iff)
qed

lemma createAndSendOffer_success:
  assumes "Map_get (connections w) p = Some pc" "\<not> processingSignal pc"
    and "state pc \<notin> {OFFER_SENT, OFFER_RECEIVED, ANSWER_SENT, ANSWER_RECEIVED, CONNECTED}"
    and "createOffer io = Inr off" "setLocalDescription io = None"
  shows "trace (createAndSendOffer io p w) =
           trace w @ [StateChange p CONNECTING, CreateOffer (connection pc),
                      SetLocalDescription (connection pc) off, StateChange p OFFER_SENT,
                      SendOffer p off] @ error_report (sendOffer io) w"
    and "Map_get (connections (createAndSendOffer io p w)) p = Some (pc\<lparr>state := OFFER_SENT\<rparr>)"
proof -
  have nc: "state pc \<noteq> CONNECTED" using assms(3) by auto
  show "trace (createAndSendOffer io p w) =
           trace w @ [StateChange p CONNECTING, CreateOffer (connection pc),
                      SetLocalDescription (connection pc) off, StateChange p OFFER_SENT,
                      SendOffer p off] @ error_report (sendOffer io) w"
    unfolding createAndSendOffer_acquired[OF assms(1,2) nc]
    using assms(3-5) by (simp del: insert_iff)
  show "Map_get (connections (createAndSendOffer io p w)) p = Some (pc\<lparr>state := OFFER_SENT\<rparr>)"
    unfolding createAndSendOffer_acquired[OF assms(1,2) nc]
    using assms by (simp add: set_processingSignal_get set_state_get del: insert_iff)
qed

text \<open>When a browser call of the negotiation throws, the record stays in the state set
  before the call and the error goes to the error handler; when the lock is held,
  \<open>createAndSendOffer\<close> only schedules a retry.\<close>

lemma acceptOffer_failure:
  assumes "state pc \<notin> {OFFER_SENT, ANSWER_RECEIVED, CONNECTED}"
    and "newSessionDescription io \<noteq> None \<or> setRemoteDescription io \<noteq> None \<or>
         isl (createAnswer io) \<or> setLocalDescription io \<noteq> None"
  shows "\<exists>e rest. snd (acceptOffer io p off pc w) = Some e \<and>
           connections (fst (acceptOffer io p off pc w)) = connections (set_state p OFFER_RECEIVED w) \<and>
           onErrorCallback (fst (acceptOffer io p off pc w)) = onErrorCallback w \<and>
           trace (fst (acceptOffer io p off pc w)) = trace w @ [StateChange p OFFER_RECEIVED] @ rest \<and>
           set rest \<subseteq> {SetRemoteDescription (connection pc) off, CreateAnswer (connection pc)}
                       \<union> range (SetLocalDescription (connection pc))"
  using assms
  by (auto simp: acceptOffer_def Let_def split: option.splits sum.splits)

lemma handleOffer_failure:
  assumes "Map_get (connections w) p = Some pc" "\<not> processingSignal pc"
    and "state pc \<notin> {OFFER_SENT, ANSWER_RECEIVED, CONNECTED}"
    and "newSessionDescription io \<noteq> None \<or> setRemoteDescription io \<noteq> None \<or>
         isl (createAnswer io) \<or> setLocalDescription io \<noteq> None"
  shows "Map_get (connections (handleOffer io p off w)) p = Some (pc\<lparr>state := OFFER_RECEIVED\<rparr>)"
    and "\<exists>e rest. trace (handleOffer io p off w) =
             trace w @ [StateChange p OFFER_RECEIVED] @ rest @ error_report (Some e) w \<and>
           set rest \<subseteq> {SetRemoteDescription (connection pc) off, CreateAnswer (connection pc)}
                       \<union> range (SetLocalDescription (connection pc))"
proof -
  have nc: "state pc \<noteq> CONNECTED" using assms(3) by auto
  let ?w1 = "set_processingSignal p True w"
  obtain e rest where r: "snd (acceptOffer io p off pc ?w1) = Some e"
    and c: "connections (fst (acceptOffer io p off pc ?w1)) = connections (set_state p OFFER_RECEIVED ?w1)"
    and cb: "onErrorCallback (fst (acceptOffer io p off pc ?w1)) = onErrorCallback ?w1"
    and t: "trace (fst (acceptOffer io p off pc ?w1)) = trace ?w1 @ [StateChange p OFFER_RECEIVED] @ rest"
    and s: "set rest \<subseteq> {SetRemoteDescription (connection pc) off, CreateAnswer (connection pc)}
                       \<union> range (SetLocalDescription (connection pc))"
    using acceptOffer_failure[OF assms(3,4), of p off ?w1] by blast
  have eq: "handleOffer io p off w =
      handleError e (set_processingSignal p False (fst (acceptOffer io p off pc ?w1)))"
    using r by (simp add: handleOffer_existing[OF assms(1,2) nc] Let_def)
  have lk: "pc\<lparr>processingSignal := True, state := OFFER_RECEIVED, processingSignal := False\<rparr>
      = pc\<lparr>state := OFFER_RECEIVED\<rparr>"
    using assms(2) by simp
  have "Map_get (connections (set_processingSignal p False (fst (acceptOffer io p off pc ?w1)))) p
      = Some (pc\<lparr>state := OFFER_RECEIVED\<rparr>)"
    using assms(1) lk
    by (simp add: set_processingSignal_get c set_state_get)
  then show "Map_get (connections (handleOffer io p off w)) p = Some (pc\<lparr>state := OFFER_RECEIVED\<rparr>)"
    by (simp add: eq)
  have "trace (handleOffer io p off w) =
             trace w @ [StateChange p OFFER_RECEIVED] @ rest @ error_report (Some e) w"
    by (simp add: eq handleError_def error_report_def t cb)
  with s show "\<exists>e rest. trace (handleOffer io p off w) =
             trace w @ [StateChange p OFFER_RECEIVED] @ rest @ error_report (Some e) w \<and>
           set rest \<subseteq> {SetRemoteDescription (connection pc) off, CreateAnswer (connection pc)}
                       \<union> range (SetLocalDescription (connection pc))"
    by blast
qed

lemma createAndSendOffer_failure:
  assumes "Map_get (connections w) p = Some pc" "\<not> processingSignal pc"
    and "state pc \<notin> {OFFER_SENT, OFFER_RECEIVED, ANSWER_SENT, ANSWER_RECEIVED, CONNECTED}"
    and "isl (createOffer io) \<or> setLocalDescription io \<noteq> None"
  shows "Map_get (connections (createAndSendOffer io p w)) p = Some (pc\<lparr>state := CONNECTING\<rparr>)"
    and "\<exists>e rest. trace (createAndSendOffer io p w) =
             trace w @ [StateChange p CONNECTING, CreateOffer (connection pc)] @ rest
               @ error_report (Some e) w \<and>
           set rest \<subseteq> range (SetLocalDescription (connection pc))"
proof -
  have nc: "state pc \<noteq> CONNECTED" using assms(3) by auto
  have lk: "pc\<lparr>processingSignal := True, state := CONNECTING, processingSignal := False\<rparr>
      = pc\<lparr>state := CONNECTING\<rparr>"
    using assms(2) by simp
  show "Map_get (connections (createAndSendOffer io p w)) p = Some (pc\<lparr>state := CONNECTING\<rparr>)"
    unfolding createAndSendOffer_acquired[OF assms(1,2) nc]
    using assms lk
    by (auto simp: set_processingSignal_get set_state_get split: sum.splits option.splits
          simp del: insert_iff)
  show "\<exists>e rest. trace (createAndSendOffer io p w) =
             trace w @ [StateChange p CONNECTING, CreateOffer (connection pc)] @ rest
               @ error_report (Some e) w \<and>
           set rest \<subseteq> range (SetLocalDescription (connection pc))"
  proof (cases "createOffer io")
    case (Inl e)
    have "trace (createAndSendOffer io p w) =
             trace w @ [StateChange p CONNECTING, CreateOffer (connection pc)] @ []
               @ error_report (Some e) w"
      unfolding createAndSendOffer_acquired[OF assms(1,2) nc]
      using assms(3) Inl by (simp add: handleError_def error_report_def del: insert_iff)
    then show ?thesis by (intro exI[of _ e] exI[of _ "[]"]) simp
  next
    case (Inr sd)
    with assms(4) obtain e where e: "setLocalDescription io = Some e" by auto
    have "trace (createAndSendOffer io p w) =
             trace w @ [StateChange p CONNECTING, CreateOffer (connection pc)]
               @ [SetLocalDescription (connection pc) sd] @ error_report (Some e) w"
      unfolding createAndSendOffer_acquired[OF assms(1,2) nc]
      using assms(3) Inr e by (simp add: handleError_def error_report_def del: insert_iff)
    then show ?thesis
      by (intro exI[of _ e] exI[of _ "[SetLocalDescription (connection pc) sd]"]) simp
  qed
qed

lemma createAndSendOffer_busy:
  assumes "Map_get (connections w) p = Some pc" "processingSignal pc" "state pc \<noteq> CONNECTED"
  shows "createAndSendOffer io p w = emit (SetTimeout (RetryCreateAndSendOffer p) 500) w"
  using assms by (simp add: createAndSendOffer_def)










lemma simple_fields [simp]:
  "connections (updatePeerCount w) = connections w"
  "connections (fireConnection p w) = connections w"
  "connections (fireDisconnection p w) = connections w"
  "Map_keys (connections (set_connected p b w)) = Map_keys (connections w)"
  by (simp_all add: updatePeerCount_def fireConnection_def fireDisconnection_def set_connected_def)

lemma acceptOffer_keys:
  "Map_keys (connections (fst (acceptOffer io p off pc w))) = Map_keys (connections w)"
  by (simp add: acceptOffer_def Let_def split: option.splits sum.splits)

lemma acceptAnswer_keys:
  "Map_keys (connections (fst (acceptAnswer io p ans pc w))) = Map_keys (connections w)"
  by (simp add: acceptAnswer_def Let_def split: option.splits sum.splits)

lemma cleanup_keys:
  "distinct (Map_keys (connections w)) \<Longrightarrow> distinct (Map_keys (connections (cleanup p old w)))"
  by (simp add: cleanup_def Let_def distinct_Map_delete split: option.splits)

lemma createConnection_keys:
  "distinct (Map_keys (connections w)) \<Longrightarrow>
     distinct (Map_keys (connections (createConnection io p h i w)))"
  by (simp add: createConnection_def Let_def createAndSendOffer_keys distinct_Map_set
        split: option.splits)

lemma connectToPeer_keys:
  "distinct (Map_keys (connections w)) \<Longrightarrow>
     distinct (Map_keys (connections (connectToPeer io p h i w)))"
  by (simp add: connectToPeer_def createConnection_keys cleanup_keys split: option.splits)

lemma handleOffer_keys:
  assumes "distinct (Map_keys (connections w))"
  shows "distinct (Map_keys (connections (handleOffer io p off w)))"
proof -
  let ?w0 = "case Map_get (connections w) p of
               None \<Rightarrow> connectToPeer io p False False w | Some pc \<Rightarrow> w"
  have d: "distinct (Map_keys (connections ?w0))"
    using assms by (simp add: connectToPeer_keys split: option.splits)
  show ?thesis
    unfolding handleOffer_def Let_def
    using d by (simp add: acceptOffer_keys split: option.splits)
qed

lemma handleAnswer_keys:
  assumes "distinct (Map_keys (connections w))"
  shows "distinct (Map_keys (connections (handleAnswer io p ans w)))"
  using assms
  by (simp add: handleAnswer_def Let_def acceptAnswer_keys connectToPeer_keys split: option.splits)

lemma lostConnection_keys:
  "Map_keys (connections (lostConnection p st pc w)) = Map_keys (connections w)"
  by (simp add: lostConnection_def Let_def)

lemma onconnectionstatechange_keys:
  "Map_keys (connections (onconnectionstatechange p cs w)) = Map_keys (connections w)"
  by (simp add: onconnectionstatechange_def Let_def lostConnection_keys
        split: option.splits RTCPeerConnectionState.splits)

lemma channel_keys:
  "Map_keys (connections (channel_onopen p w)) = Map_keys (connections w)"
  "Map_keys (connections (channel_onclose p w)) = Map_keys (connections w)"
  "Map_keys (connections (oniceconnectionfailed p h i w)) = Map_keys (connections w)"
  "Map_keys (connections (ondatachannel p ch w)) = Map_keys (connections w)"
  by (simp_all add: channel_onopen_def channel_onclose_def oniceconnectionfailed_def
        ondatachannel_def split: option.splits)

lemma connectTimeout_keys:
  "distinct (Map_keys (connections w)) \<Longrightarrow>
     distinct (Map_keys (connections (connectTimeout io p h i w)))"
  by (simp add: connectTimeout_def connectToPeer_keys split: option.splits)

lemma createAndSendOffer_begin_keys:
  "Map_keys (connections (fst (createAndSendOffer_begin p w))) = Map_keys (connections w)"
  by (simp add: createAndSendOffer_begin_def Let_def split: option.splits)

lemma createAndSendOffer_resume_keys:
  "Map_keys (connections (createAndSendOffer_resume io p c w)) = Map_keys (connections w)"
  by (simp add: createAndSendOffer_resume_def Let_def split: option.splits sum.splits)

lemma connectToPeer_resume_keys:
  "Map_keys (connections (connectToPeer_resume io p k w)) = Map_keys (connections w)"
  by (simp add: connectToPeer_resume_def createAndSendOffer_resume_keys split: option.splits)

lemma createConnection_begin_keys:
  "distinct (Map_keys (connections w)) \<Longrightarrow>
     distinct (Map_keys (connections (fst (createConnection_begin io p h i w))))"
  by (simp add: createConnection_begin_def Let_def createAndSendOffer_begin_keys distinct_Map_set
        split: option.splits)

lemma connectToPeer_begin_keys:
  "distinct (Map_keys (connections w)) \<Longrightarrow>
     distinct (Map_keys (connections (fst (connectToPeer_begin io p h i w))))"
  by (simp add: connectToPeer_begin_def createConnection_begin_keys cleanup_keys
        split: option.splits)

text \<open>Begun and then resumed with nothing in between, the two halves are the whole
  call.\<close>

lemma connectToPeer_resume_simps:
  "connectToPeer_resume io p None w = w"
  "connectToPeer_resume io p (Some c) w = createAndSendOffer_resume io p c w"
  by (simp_all add: connectToPeer_resume_def)

lemma createAndSendOffer_halves:
  "createAndSendOffer io p w =
     connectToPeer_resume io p (snd (createAndSendOffer_begin p w)) (fst (createAndSendOffer_begin p w))"
  by (auto simp: createAndSendOffer_def createAndSendOffer_begin_def connectToPeer_resume_simps
        createAndSendOffer_resume_def Let_def split: option.splits sum.splits)

lemma createConnection_halves:
  "createConnection io p h i w =
     connectToPeer_resume io p (snd (createConnection_begin io p h i w))
       (fst (createConnection_begin io p h i w))"
proof (cases "newPeerConnection io")
  case (Some e)
  then show ?thesis
    by (simp add: createConnection_def createConnection_begin_def connectToPeer_resume_simps)
next
  case None
  note npc = this
  show ?thesis
  proof (cases "if i then createDataChannel io else None")
    case (Some e)
    with npc show ?thesis
      by (simp add: createConnection_def createConnection_begin_def Let_def
            connectToPeer_resume_simps)
  next
    case None
    show ?thesis
    proof (cases i)
      case True
      with npc None show ?thesis
        by (simp add: createConnection_def createConnection_begin_def Let_def
              createAndSendOffer_halves[of io p])
    next
      case False
      with npc show ?thesis
        by (simp add: createConnection_def createConnection_begin_def Let_def
              connectToPeer_resume_simps)
    qed
  qed
qed

lemma connectToPeer_halves:
  "connectToPeer io p h i w =
     connectToPeer_resume io p (snd (connectToPeer_begin io p h i w))
       (fst (connectToPeer_begin io p h i w))"
proof (cases "p = self_peerId w")
  case True
  then show ?thesis
    by (simp add: connectToPeer_def connectToPeer_begin_def connectToPeer_resume_simps)
next
  case False
  note other = this
  show ?thesis
  proof (cases "Map_get (connections w) p")
    case None
    with other show ?thesis
      by (simp add: connectToPeer_def connectToPeer_begin_def createConnection_halves[of io p h i])
  next
    case (Some existing)
    with other show ?thesis
      by (simp add: connectToPeer_def connectToPeer_begin_def connectToPeer_resume_simps
            createConnection_halves[of io p h i])
  qed
qed

lemma handlePeerJoin_keys:
  "distinct (Map_keys (connections w)) \<Longrightarrow>
     distinct (Map_keys (connections (handlePeerJoin io peer w)))"
  by (simp add: handlePeerJoin_def Let_def connectToPeer_resume_keys connectToPeer_begin_keys
        split: Peer.splits)

lemma begin_all_keys:
  "distinct (Map_keys (connections w)) \<Longrightarrow>
     distinct (Map_keys (connections (fst (begin_all ps w))))"
  by (induction ps w rule: begin_all.induct) (simp_all add: Let_def connectToPeer_begin_keys)

lemma resume_all_keys:
  "Map_keys (connections (resume_all ks w)) = Map_keys (connections w)"
  by (induction ks w rule: resume_all.induct) (simp_all add: connectToPeer_resume_keys)

lemma start_keys:
  assumes "distinct (Map_keys (connections w))"
  shows "distinct (Map_keys (connections (start r w)))"
proof (cases r)
  case (Inl e)
  with assms show ?thesis by (simp add: start_def)
next
  case (Inr ps)
  with assms show ?thesis
    by (simp add: start_def Let_def resume_all_keys begin_all_keys)
qed

lemma fire_keys:
  "distinct (Map_keys (connections w)) \<Longrightarrow> distinct (Map_keys (connections (fire io t w)))"
  by (cases t)
     (simp_all add: createAndSendOffer_keys handleOffer_keys handleAnswer_keys
        connectToPeer_keys connectTimeout_keys)

lemma step_keys:
  "distinct (Map_keys (connections w)) \<Longrightarrow> distinct (Map_keys (connections (step w a)))"
proof (cases a)
  case (Pair io i)
  assume d: "distinct (Map_keys (connections w))"
  show ?thesis
    unfolding Pair
    using d
    by (cases i)
       (simp_all add: start_keys handlePeerJoin_keys handleOffer_keys handleAnswer_keys
          onconnectionstatechange_keys channel_keys fire_keys stop_def Map_keys_def[of "[]"])
qed

lemma run_keys:
  "distinct (Map_keys (connections w)) \<Longrightarrow> distinct (Map_keys (connections (foldl step w ins)))"
  by (induction ins arbitrary: w) (simp_all add: step_keys)

lemma at_most_one_record:
  "distinct (Map_keys m) \<Longrightarrow> length (filter (\<lambda>e. fst e = k \<and> P (snd e)) m) \<le> 1"
proof (induction m)
  case Nil
  then show ?case by simp
next
  case (Cons e m)
  have ne: "fst e = k \<Longrightarrow> k \<notin> fst ` set m"
    using Cons.prems by (simp add: Map_keys_def)
  have "fst e = k \<Longrightarrow> filter (\<lambda>e. fst e = k \<and> P (snd e)) m = []"
  proof -
    assume "fst e = k"
    then have "\<forall>x \<in> set m. fst x \<noteq> k" using ne by (auto simp: image_iff)
    then show ?thesis by (simp add: filter_empty_conv)
  qed
  with Cons show ?case by (auto simp: Map_keys_def)
qed

lemma reachable_one_nonterminal:
  "length (nonterminal_records (foldl step (initial self host c1 c2 c3 c4) ins) p) \<le> 1"
proof -
  have "distinct (Map_keys (connections (foldl step (initial self host c1 c2 c3 c4) ins)))"
    by (rule run_keys) (simp add: initial_def Map_keys_def)
  then show ?thesis
    unfolding nonterminal_records_def length_map by (rule at_most_one_record)
qed

lemma cleanup_trace: "trace (cleanup p old w) = trace w @ teardown_events p old"
  by (simp add: cleanup_def teardown_events_def Let_def emit_def split: option.splits)

lemma cleanup_table: "Map_get (connections (cleanup p old w)) p = None"
  by (simp add: cleanup_def Let_def Map_get_Map_delete split: option.splits)

lemma cleanup_fresh: "fresh (cleanup p old w) = fresh w"
  by (simp add: cleanup_def Let_def emit_def split: option.splits)

lemma handleError_trace: "\<exists>rest. trace (handleError e w) = trace w @ rest"
  by (simp add: handleError_def)

lemma createAndSendOffer_trace: "\<exists>rest. trace (createAndSendOffer io p w) = trace w @ rest"
  by (simp add: createAndSendOffer_def Let_def handleError_def split: option.splits sum.splits)

lemma createAndSendOffer_record:
  assumes "Map_get (connections w) p = Some pc"
  shows "\<exists>pc'. Map_get (connections (createAndSendOffer io p w)) p = Some pc' \<and>
           connection pc' = connection pc \<and>
           (state pc' = state pc \<or> state pc' = CONNECTING \<or> state pc' = OFFER_SENT)"
proof (cases "state pc = CONNECTED \<or> processingSignal pc")
  case True
  with assms show ?thesis by (auto simp: createAndSendOffer_def)
next
  case False
  then have a: "\<not> processingSignal pc" "state pc \<noteq> CONNECTED" by auto
  show ?thesis
    unfolding createAndSendOffer_acquired[OF assms a]
    using assms
    by (simp add: set_processingSignal_get set_state_get split: sum.splits option.splits del: insert_iff)
qed

lemma createConnection_trace:
  "\<exists>rest. trace (createConnection io p h i w) = trace w @ rest \<and>
          (newPeerConnection io = None \<longrightarrow> (\<exists>rest'. rest = NewPeerConnection (fresh w) # rest'))"
proof (cases "newPeerConnection io")
  case (Some e)
  then show ?thesis by (simp add: createConnection_def handleError_def)
next
  case None
  show ?thesis
  proof (cases "i \<and> createDataChannel io \<noteq> None")
    case True
    with None show ?thesis
      by (auto simp: createConnection_def Let_def handleError_def)
  next
    case False
    show ?thesis
    proof (cases i)
      case True
      with False have dc: "createDataChannel io = None" by simp
      let ?w4 = "emit (SetTimeout (ConnectTimeout p h True) 10000)
          (emit (TableSet p)
            (emit (CreateDataChannel (fresh w) (Suc (fresh w))) (emit (NewPeerConnection (fresh w)) (w\<lparr>fresh := fresh w + 1\<rparr>)\<lparr>fresh := Suc (fresh w) + 1\<rparr>)
             \<lparr>connections := Map_set p
                \<lparr>pc_peerId = p, pc_isHost = h, connection = fresh w,
                   dataChannel = Some (Suc (fresh w)), isInitiator = True, connected = False,
                   state = NEW, processingSignal = False\<rparr> (connections w)\<rparr>))"
      have eq: "createConnection io p h i w = createAndSendOffer io p ?w4"
        using None dc True by (simp add: createConnection_def Let_def)
      obtain rest where "trace (createAndSendOffer io p ?w4) = trace ?w4 @ rest"
        using createAndSendOffer_trace by blast
      then show ?thesis
        unfolding eq using None by (simp add: emit_def)
    next
      case False
      with None show ?thesis
        by (simp add: createConnection_def Let_def emit_def)
    qed
  qed
qed

lemma createConnection_record:
  assumes "newPeerConnection io = None" "i \<longrightarrow> createDataChannel io = None"
  shows "\<exists>new. Map_get (connections (createConnection io p h i w)) p = Some new \<and>
           connection new = fresh w \<and> \<not> terminal (state new)"
proof (cases i)
  case True
  with assms have dc: "createDataChannel io = None" by simp
  let ?new = "\<lparr>pc_peerId = p, pc_isHost = h, connection = fresh w,
                   dataChannel = Some (Suc (fresh w)), isInitiator = True, connected = False,
                   state = NEW, processingSignal = False\<rparr>"
  let ?w4 = "emit (SetTimeout (ConnectTimeout p h True) 10000)
          (emit (TableSet p)
            (emit (CreateDataChannel (fresh w) (Suc (fresh w))) (emit (NewPeerConnection (fresh w)) (w\<lparr>fresh := fresh w + 1\<rparr>)\<lparr>fresh := Suc (fresh w) + 1\<rparr>)
             \<lparr>connections := Map_set p ?new (connections w)\<rparr>))"
  have eq: "createConnection io p h i w = createAndSendOffer io p ?w4"
    using assms(1) dc True by (simp add: createConnection_def Let_def)
  have "Map_get (connections ?w4) p = Some ?new"
    by (simp add: emit_def Map_get_def)
  from createAndSendOffer_record[OF this, of io]
  show ?thesis unfolding eq by (auto simp: terminal_def)
next
  case False
  with assms show ?thesis
    by (simp add: createConnection_def Let_def emit_def Map_get_def terminal_def)
qed

lemma ex_service_record: "Map_get (connections (ex_service st lock)) ''B'' = Some (ex_record st lock)"
  by (simp add: ex_service_def Map_get_def)

lemma ex_record_fields:
  "state (ex_record st lock) = st" "processingSignal (ex_record st lock) = lock"
  "connection (ex_record st lock) = 0"
  by (simp_all add: ex_record_def)

lemma ex_env_fields:
  "newPeerConnection ex_env = None" "createDataChannel ex_env = None"
  "createOffer ex_env = Inr ''local-offer''" "createAnswer ex_env = Inr ''local-answer''"
  "newSessionDescription ex_env = None" "setLocalDescription ex_env = None"
  "setRemoteDescription ex_env = None" "sendOffer ex_env = None" "sendAnswer ex_env = None"
  by (simp_all add: ex_env_def)


section \<open>The negotiation engine: records, offers and answers\<close>

text \<open>
  Claim C1. In every state the service can reach from its start, whatever callbacks,
  notifications and timers arrive and whatever the browser calls return, the table
  \<open>connections\<close> holds at most one record per peer that is not terminal. And when
  \<open>connectToPeer\<close> finds a terminal (\<open>DISCONNECTED\<close> or \<open>FAILED\<close>) record \<open>old\<close> for a
  peer, the first things it does are to close the data channel of \<open>old\<close> (if it has
  one), close its connection and delete the peer from the table; only then comes the
  new \<open>RTCPeerConnection\<close>, and when the creation succeeds the table holds a fresh,
  non-terminal record for the peer.
\<close>

theorem one_record_per_peer:
  "length (nonterminal_records (foldl step (initial self host c1 c2 c3 c4) ins) q) \<le> 1 \<and>
   (Map_get (connections w) p = Some old \<and> terminal (state old) \<and> p \<noteq> self_peerId w \<longrightarrow>
      connectToPeer io p h i w = createConnection io p h i (cleanup p old w) \<and>
      Map_get (connections (cleanup p old w)) p = None \<and>
      (\<exists>rest. trace (connectToPeer io p h i w) = trace w @ teardown_events p old @ rest \<and>
              (newPeerConnection io = None \<longrightarrow> (\<exists>rest'. rest = NewPeerConnection (fresh w) # rest'))) \<and>
      (newPeerConnection io = None \<and> (i \<longrightarrow> createDataChannel io = None) \<longrightarrow>
         (\<exists>new. Map_get (connections (connectToPeer io p h i w)) p = Some new \<and>
                connection new = fresh w \<and> \<not> terminal (state new))))"
proof (intro conjI impI)
  show "length (nonterminal_records (foldl step (initial self host c1 c2 c3 c4) ins) q) \<le> 1"
    by (rule reachable_one_nonterminal)
next
  assume a: "Map_get (connections w) p = Some old \<and> terminal (state old) \<and> p \<noteq> self_peerId w"
  then show eq: "connectToPeer io p h i w = createConnection io p h i (cleanup p old w)"
    by (auto simp: connectToPeer_def terminal_def)
  show "Map_get (connections (cleanup p old w)) p = None"
    by (rule cleanup_table)
  from createConnection_trace[of io p h i "cleanup p old w"]
  show "\<exists>rest. trace (connectToPeer io p h i w) = trace w @ teardown_events p old @ rest \<and>
              (newPeerConnection io = None \<longrightarrow> (\<exists>rest'. rest = NewPeerConnection (fresh w) # rest'))"
    unfolding eq by (simp add: cleanup_trace cleanup_fresh)
  assume "newPeerConnection io = None \<and> (i \<longrightarrow> createDataChannel io = None)"
  then show "\<exists>new. Map_get (connections (connectToPeer io p h i w)) p = Some new \<and>
                connection new = fresh w \<and> \<not> terminal (state new)"
    unfolding eq using createConnection_record[of io i p h "cleanup p old w"]
    by (simp add: cleanup_fresh)
qed

text \<open>A host learns of peer \<open>B\<close> and the connection comes up; and a failed record for
  \<open>B\<close> is replaced.\<close>

theorem one_record_per_peer_witness:
  "length (nonterminal_records
      (foldl step (initial ''A'' True True True True True)
         [(ex_env, PeerJoined (Peer ''B'' False)),
          (ex_env, ConnectionStateChanged ''B'' cs_connected)]) ''B'') \<le> 1 \<and>
   length (nonterminal_records
      (foldl step (initial ''A'' True True True True True)
         [(ex_env, PeerJoined (Peer ''B'' False)),
          (ex_env, ConnectionStateChanged ''B'' cs_connected)]) ''B'') = 1 \<and>
   Map_get (connections (ex_service FAILED False)) ''B'' = Some (ex_record FAILED False) \<and>
   terminal (state (ex_record FAILED False)) \<and> ''B'' \<noteq> self_peerId (ex_service FAILED False) \<and>
   newPeerConnection ex_env = None \<and> createDataChannel ex_env = None \<and>
   Map_get (connections (cleanup ''B'' (ex_record FAILED False) (ex_service FAILED False))) ''B'' = None \<and>
   trace (connectToPeer ex_env ''B'' False True (ex_service FAILED False))
     = [CloseChannel 1, CloseConnection 0, TableDelete ''B'',
        NewPeerConnection 2, CreateDataChannel 2 3, TableSet ''B'',
        SetTimeout (ConnectTimeout ''B'' False True) 10000,
        StateChange ''B'' CONNECTING, CreateOffer 2, SetLocalDescription 2 ''local-offer'',
        StateChange ''B'' OFFER_SENT, SendOffer ''B'' ''local-offer''] \<and>
   Map_get (connections (connectToPeer ex_env ''B'' False True (ex_service FAILED False))) ''B''
     = Some \<lparr>pc_peerId = ''B'', pc_isHost = False, connection = 2, dataChannel = Some 3,
             isInitiator = True, connected = False, state = OFFER_SENT, processingSignal = False\<rparr>"
proof -
  have e: "length (nonterminal_records
      (foldl step (initial ''A'' True True True True True)
         [(ex_env, PeerJoined (Peer ''B'' False)),
          (ex_env, ConnectionStateChanged ''B'' cs_connected)]) ''B'') = 1"
    by code_simp
  have f: "Map_get (connections (ex_service FAILED False)) ''B'' = Some (ex_record FAILED False)"
    "terminal (state (ex_record FAILED False))" "''B'' \<noteq> self_peerId (ex_service FAILED False)"
    "newPeerConnection ex_env = None" "createDataChannel ex_env = None"
    by code_simp+
  have w: "connectToPeer ex_env ''B'' False True (ex_service FAILED False) =
      \<lparr>self_peerId = ''A'', self_isHost = True,
       connections = [(''B'', \<lparr>pc_peerId = ''B'', pc_isHost = False, connection = 2,
          dataChannel = Some 3, isInitiator = True, connected = False, state = OFFER_SENT,
          processingSignal = False\<rparr>)],
       onConnectionCallback = True, onDisconnectionCallback = True,
       onErrorCallback = True, onPeerCountChangeCallback = True,
       trace = [CloseChannel 1, CloseConnection 0, TableDelete ''B'',
        NewPeerConnection 2, CreateDataChannel 2 3, TableSet ''B'',
        SetTimeout (ConnectTimeout ''B'' False True) 10000,
        StateChange ''B'' CONNECTING, CreateOffer 2, SetLocalDescription 2 ''local-offer'',
        StateChange ''B'' OFFER_SENT, SendOffer ''B'' ''local-offer''],
       fresh = 4\<rparr>"
    by code_simp
  have t: "trace (connectToPeer ex_env ''B'' False True (ex_service FAILED False))
     = [CloseChannel 1, CloseConnection 0, TableDelete ''B'',
        NewPeerConnection 2, CreateDataChannel 2 3, TableSet ''B'',
        SetTimeout (ConnectTimeout ''B'' False True) 10000,
        StateChange ''B'' CONNECTING, CreateOffer 2, SetLocalDescription 2 ''local-offer'',
        StateChange ''B'' OFFER_SENT, SendOffer ''B'' ''local-offer'']"
    by (simp add: w)
  have r: "Map_get (connections (connectToPeer ex_env ''B'' False True (ex_service FAILED False))) ''B''
     = Some \<lparr>pc_peerId = ''B'', pc_isHost = False, connection = 2, dataChannel = Some 3,
             isInitiator = True, connected = False, state = OFFER_SENT, processingSignal = False\<rparr>"
    by (simp add: w Map_get_def)
  note th = one_record_per_peer[of "''A''" True True True True True
        "[(ex_env, PeerJoined (Peer ''B'' False)),
          (ex_env, ConnectionStateChanged ''B'' cs_connected)]" "''B''"
        "ex_service FAILED False" "''B''" "ex_record FAILED False" ex_env False True]
  have a: "length (nonterminal_records
      (foldl step (initial ''A'' True True True True True)
         [(ex_env, PeerJoined (Peer ''B'' False)),
          (ex_env, ConnectionStateChanged ''B'' cs_connected)]) ''B'') \<le> 1"
    by (rule th[THEN conjunct1])
  have b: "Map_get (connections (cleanup ''B'' (ex_record FAILED False) (ex_service FAILED False))) ''B'' = None"
    using th[THEN conjunct2] f(1-3) by blast
  show ?thesis
    by (intro conjI a b e f t r)
qed




text \<open>
  Claim C3 at a failing input. The record for peer \<open>B\<close> is not connected yet and both
  callbacks are registered. The transport reports \<open>'connected'\<close>, which fires the
  connection callback and the peer count; then the data channel reports \<open>open\<close>, and
  \<open>channel.onopen\<close>, which does not look at \<open>connected\<close>, fires both again.
\<close>

theorem connected_fires_twice:
  "trace (channel_onopen ''B'' (onconnectionstatechange ''B'' cs_connected (ex_service ANSWER_RECEIVED False)))
     = [StateChange ''B'' CONNECTED, OnConnection ''B'', OnPeerCountChange 1,
        StateChange ''B'' CONNECTED, OnConnection ''B'', OnPeerCountChange 1]"
  by code_simp

text \<open>
  Claim C7, as the code has it. \<open>handleOffer\<close> finds a record for the sender whose
  lock is free. In state \<open>OFFER_SENT\<close>, \<open>ANSWER_RECEIVED\<close> or \<open>CONNECTED\<close> it leaves the
  service exactly as it was. In every other state it sets the state to
  \<open>OFFER_RECEIVED\<close>. If the browser calls succeed, it applies the remote description,
  creates an answer and applies it locally, sets the state to \<open>ANSWER_SENT\<close> and hands
  the answer to the signaling client, in this order, and the record ends in state
  \<open>ANSWER_SENT\<close> with the lock free (if the signaling client fails to deliver the
  answer, its error report follows; nothing else changes). If one of the browser calls
  throws, the record ends in state \<open>OFFER_RECEIVED\<close> with the lock free, the error goes
  to the error handler, and the state is never set to \<open>ANSWER_SENT\<close> and no answer is
  handed to the signaling client.
\<close>

theorem handleOffer_lock_free:
  assumes "Map_get (connections w) p = Some pc" "\<not> processingSignal pc"
  shows "(state pc \<in> {OFFER_SENT, ANSWER_RECEIVED, CONNECTED} \<longrightarrow> handleOffer io p off w = w) \<and>
         (state pc \<notin> {OFFER_SENT, ANSWER_RECEIVED, CONNECTED} \<and>
          newSessionDescription io = None \<and> setRemoteDescription io = None \<and>
          createAnswer io = Inr ans \<and> setLocalDescription io = None \<longrightarrow>
            trace (handleOffer io p off w) = trace w @
              [StateChange p OFFER_RECEIVED, SetRemoteDescription (connection pc) off,
               CreateAnswer (connection pc), SetLocalDescription (connection pc) ans,
               StateChange p ANSWER_SENT, SendAnswer p ans] @ error_report (sendAnswer io) w \<and>
            Map_get (connections (handleOffer io p off w)) p = Some (pc\<lparr>state := ANSWER_SENT\<rparr>)) \<and>
         (state pc \<notin> {OFFER_SENT, ANSWER_RECEIVED, CONNECTED} \<and>
          (newSessionDescription io \<noteq> None \<or> setRemoteDescription io \<noteq> None \<or>
           isl (createAnswer io) \<or> setLocalDescription io \<noteq> None) \<longrightarrow>
            Map_get (connections (handleOffer io p off w)) p = Some (pc\<lparr>state := OFFER_RECEIVED\<rparr>) \<and>
            (\<exists>e rest. trace (handleOffer io p off w) =
                 trace w @ [StateChange p OFFER_RECEIVED] @ rest @ error_report (Some e) w \<and>
               set rest \<subseteq> {SetRemoteDescription (connection pc) off, CreateAnswer (connection pc)}
                           \<union> range (SetLocalDescription (connection pc))))"
proof (intro conjI impI)
  assume inv: "state pc \<in> {OFFER_SENT, ANSWER_RECEIVED, CONNECTED}"
  show "handleOffer io p off w = w"
  proof (cases "state pc = CONNECTED")
    case True
    with assms show ?thesis by (simp add: handleOffer_def)
  next
    case False
    with assms inv show ?thesis
      by (simp add: handleOffer_existing acceptOffer_invalid lock_unlock del: insert_iff)
  qed
next
  assume ok: "state pc \<notin> {OFFER_SENT, ANSWER_RECEIVED, CONNECTED} \<and>
          newSessionDescription io = None \<and> setRemoteDescription io = None \<and>
          createAnswer io = Inr ans \<and> setLocalDescription io = None"
  then have nc: "state pc \<noteq> CONNECTED" by auto
  have eq: "handleOffer io p off w = set_processingSignal p False
     (signaling_sendAnswer io p ans (set_state p ANSWER_SENT
       (emit (SetLocalDescription (connection pc) ans) (emit (CreateAnswer (connection pc))
          (emit (SetRemoteDescription (connection pc) off)
             (set_state p OFFER_RECEIVED (set_processingSignal p True w)))))))"
    using ok by (simp add: handleOffer_existing[OF assms nc] acceptOffer_success del: insert_iff)
  show "trace (handleOffer io p off w) = trace w @
              [StateChange p OFFER_RECEIVED, SetRemoteDescription (connection pc) off,
               CreateAnswer (connection pc), SetLocalDescription (connection pc) ans,
               StateChange p ANSWER_SENT, SendAnswer p ans] @ error_report (sendAnswer io) w"
    by (simp add: eq error_report_def split: option.splits)
  show "Map_get (connections (handleOffer io p off w)) p = Some (pc\<lparr>state := ANSWER_SENT\<rparr>)"
    using assms by (simp add: eq set_processingSignal_get set_state_get)
next
  assume bad: "state pc \<notin> {OFFER_SENT, ANSWER_RECEIVED, CONNECTED} \<and>
          (newSessionDescription io \<noteq> None \<or> setRemoteDescription io \<noteq> None \<or>
           isl (createAnswer io) \<or> setLocalDescription io \<noteq> None)"
  then have v: "state pc \<notin> {OFFER_SENT, ANSWER_RECEIVED, CONNECTED}"
    and f: "newSessionDescription io \<noteq> None \<or> setRemoteDescription io \<noteq> None \<or>
           isl (createAnswer io) \<or> setLocalDescription io \<noteq> None"
    by blast+
  show "Map_get (connections (handleOffer io p off w)) p = Some (pc\<lparr>state := OFFER_RECEIVED\<rparr>)"
    by (rule handleOffer_failure(1)[OF assms v f])
  show "\<exists>e rest. trace (handleOffer io p off w) =
                 trace w @ [StateChange p OFFER_RECEIVED] @ rest @ error_report (Some e) w \<and>
               set rest \<subseteq> {SetRemoteDescription (connection pc) off, CreateAnswer (connection pc)}
                           \<union> range (SetLocalDescription (connection pc))"
    by (rule handleOffer_failure(2)[OF assms v f])
qed

theorem handleOffer_lock_free_witness:
  "Map_get (connections (ex_service OFFER_SENT False)) ''B'' = Some (ex_record OFFER_SENT False) \<and>
   \<not> processingSignal (ex_record OFFER_SENT False) \<and>
   state (ex_record OFFER_SENT False) \<in> {OFFER_SENT, ANSWER_RECEIVED, CONNECTED} \<and>
   handleOffer ex_env ''B'' ''remote-offer'' (ex_service OFFER_SENT False) = ex_service OFFER_SENT False \<and>
   Map_get (connections (ex_service NEW False)) ''B'' = Some (ex_record NEW False) \<and>
   \<not> processingSignal (ex_record NEW False) \<and>
   state (ex_record NEW False) \<notin> {OFFER_SENT, ANSWER_RECEIVED, CONNECTED} \<and>
   trace (handleOffer ex_env ''B'' ''remote-offer'' (ex_service NEW False)) =
     [StateChange ''B'' OFFER_RECEIVED, SetRemoteDescription 0 ''remote-offer'',
      CreateAnswer 0, SetLocalDescription 0 ''local-answer'',
      StateChange ''B'' ANSWER_SENT, SendAnswer ''B'' ''local-answer''] \<and>
   Map_get (connections (handleOffer ex_env ''B'' ''remote-offer'' (ex_service NEW False))) ''B''
     = Some (ex_record ANSWER_SENT False) \<and>
   setRemoteDescription ex_env_reject \<noteq> None \<and>
   Map_get (connections (handleOffer ex_env_reject ''B'' ''remote-offer'' (ex_service NEW False))) ''B''
     = Some (ex_record OFFER_RECEIVED False)"
proof -
  have r: "setRemoteDescription ex_env_reject \<noteq> None"
    by (simp add: ex_env_reject_def)
  show ?thesis
    using handleOffer_lock_free[OF ex_service_record, of OFFER_SENT False ex_env "''remote-offer''" "''local-answer''"]
          handleOffer_lock_free[OF ex_service_record, of NEW False ex_env "''remote-offer''" "''local-answer''"]
          handleOffer_lock_free[OF ex_service_record, of NEW False ex_env_reject "''remote-offer''" "''local-answer''"]
          r
    by (simp add: ex_service_record ex_record_fields ex_env_fields)
       (simp add: ex_service_def ex_record_def)
qed

text \<open>C7 as stated fails when the browser refuses the remote description: a
  participant holds a fresh record for the host (state \<open>NEW\<close>, lock free); the offer
  leaves the record in state \<open>OFFER_RECEIVED\<close> and no answer is sent.\<close>

theorem handleOffer_rejected_counterexample:
  "Map_get (connections ex_guest) ''H''
     = Some \<lparr>pc_peerId = ''H'', pc_isHost = False, connection = 0, dataChannel = None,
             isInitiator = False, connected = False, state = NEW, processingSignal = False\<rparr> \<and>
   Map_get (connections (handleOffer ex_env_reject ''H'' ''remote-offer'' ex_guest)) ''H''
     = Some \<lparr>pc_peerId = ''H'', pc_isHost = False, connection = 0, dataChannel = None,
             isInitiator = False, connected = False, state = OFFER_RECEIVED,
             processingSignal = False\<rparr> \<and>
   trace (handleOffer ex_env_reject ''H'' ''remote-offer'' ex_guest)
     = trace ex_guest @
       [StateChange ''H'' OFFER_RECEIVED, SetRemoteDescription 0 ''remote-offer'',
        OnError (Error ''InvalidAccessError'')]"
  by code_simp

text \<open>
  Claim C8, as the code has it. \<open>createAndSendOffer\<close> finds a record for the peer.
  In state \<open>OFFER_SENT\<close>, \<open>OFFER_RECEIVED\<close>, \<open>ANSWER_SENT\<close>, \<open>ANSWER_RECEIVED\<close> or
  \<open>CONNECTED\<close> it changes no state and sends no offer (at most it schedules a retry,
  when the lock is held). In any other state and with the lock free it sets the state
  to \<open>CONNECTING\<close> and asks for an offer; when the offer is created and applied it sets
  the state to \<open>OFFER_SENT\<close> and hands the offer to the signaling client (whose error
  report follows if the delivery fails); when creating or applying the offer throws,
  the record ends in state \<open>CONNECTING\<close>, the error goes to the error handler, and the
  state is never set to \<open>OFFER_SENT\<close> and no offer is handed to the signaling client.
  Whenever the lock is held and the state is not \<open>CONNECTED\<close>, the call does nothing
  but schedule a retry after 500 ms. Whenever it takes the lock, the lock is free
  again at the end, whatever the calls return.
\<close>

theorem createAndSendOffer_paths:
  assumes "Map_get (connections w) p = Some pc"
  shows "(state pc \<in> {OFFER_SENT, OFFER_RECEIVED, ANSWER_SENT, ANSWER_RECEIVED, CONNECTED} \<longrightarrow>
            createAndSendOffer io p w = w \<or>
            createAndSendOffer io p w = emit (SetTimeout (RetryCreateAndSendOffer p) 500) w) \<and>
         (state pc \<notin> {OFFER_SENT, OFFER_RECEIVED, ANSWER_SENT, ANSWER_RECEIVED, CONNECTED} \<and>
          \<not> processingSignal pc \<longrightarrow>
            (\<exists>rest. trace (createAndSendOffer io p w) =
               trace w @ [StateChange p CONNECTING, CreateOffer (connection pc)] @ rest) \<and>
            (createOffer io = Inr off \<and> setLocalDescription io = None \<longrightarrow>
               trace (createAndSendOffer io p w) =
                 trace w @ [StateChange p CONNECTING, CreateOffer (connection pc),
                            SetLocalDescription (connection pc) off, StateChange p OFFER_SENT,
                            SendOffer p off] @ error_report (sendOffer io) w \<and>
               Map_get (connections (createAndSendOffer io p w)) p = Some (pc\<lparr>state := OFFER_SENT\<rparr>)) \<and>
            (isl (createOffer io) \<or> setLocalDescription io \<noteq> None \<longrightarrow>
               Map_get (connections (createAndSendOffer io p w)) p = Some (pc\<lparr>state := CONNECTING\<rparr>) \<and>
               (\<exists>e rest. trace (createAndSendOffer io p w) =
                    trace w @ [StateChange p CONNECTING, CreateOffer (connection pc)] @ rest
                      @ error_report (Some e) w \<and>
                  set rest \<subseteq> range (SetLocalDescription (connection pc))))) \<and>
         (state pc \<noteq> CONNECTED \<and> processingSignal pc \<longrightarrow>
            createAndSendOffer io p w = emit (SetTimeout (RetryCreateAndSendOffer p) 500) w) \<and>
         (state pc \<noteq> CONNECTED \<and> \<not> processingSignal pc \<longrightarrow>
            (\<exists>pc'. Map_get (connections (createAndSendOffer io p w)) p = Some pc' \<and>
                   \<not> processingSignal pc'))"
  using createAndSendOffer_invalid[OF assms, of io]
        createAndSendOffer_starts[OF assms, of io]
        createAndSendOffer_success[OF assms, of io off]
        createAndSendOffer_failure[OF assms, of io]
        createAndSendOffer_busy[OF assms, of io]
        createAndSendOffer_releases[OF assms, of io]
  by (intro conjI impI) simp_all

theorem createAndSendOffer_paths_witness:
  "Map_get (connections (ex_service ANSWER_SENT False)) ''B'' = Some (ex_record ANSWER_SENT False) \<and>
   state (ex_record ANSWER_SENT False) \<in> {OFFER_SENT, OFFER_RECEIVED, ANSWER_SENT, ANSWER_RECEIVED, CONNECTED} \<and>
   createAndSendOffer ex_env ''B'' (ex_service ANSWER_SENT False) = ex_service ANSWER_SENT False \<and>
   Map_get (connections (ex_service NEW False)) ''B'' = Some (ex_record NEW False) \<and>
   state (ex_record NEW False) \<notin> {OFFER_SENT, OFFER_RECEIVED, ANSWER_SENT, ANSWER_RECEIVED, CONNECTED} \<and>
   \<not> processingSignal (ex_record NEW False) \<and>
   createOffer ex_env = Inr ''local-offer'' \<and> setLocalDescription ex_env = None \<and>
   trace (createAndSendOffer ex_env ''B'' (ex_service NEW False)) =
     [StateChange ''B'' CONNECTING, CreateOffer 0, SetLocalDescription 0 ''local-offer'',
      StateChange ''B'' OFFER_SENT, SendOffer ''B'' ''local-offer''] \<and>
   Map_get (connections (createAndSendOffer ex_env ''B'' (ex_service NEW False))) ''B''
     = Some (ex_record OFFER_SENT False) \<and>
   isl (createOffer ex_env_nooffer) \<and>
   Map_get (connections (createAndSendOffer ex_env_nooffer ''B'' (ex_service NEW False))) ''B''
     = Some (ex_record CONNECTING False) \<and>
   Map_get (connections (ex_service NEW True)) ''B'' = Some (ex_record NEW True) \<and>
   state (ex_record NEW True) \<noteq> CONNECTED \<and> processingSignal (ex_record NEW True) \<and>
   createAndSendOffer ex_env ''B'' (ex_service NEW True)
     = emit (SetTimeout (RetryCreateAndSendOffer ''B'') 500) (ex_service NEW True)"
proof -
  have e: "createAndSendOffer ex_env ''B'' (ex_service ANSWER_SENT False) = ex_service ANSWER_SENT False"
    by code_simp
  have n: "isl (createOffer ex_env_nooffer)"
    by (simp add: ex_env_nooffer_def)
  show ?thesis
    using createAndSendOffer_paths[OF ex_service_record, of ANSWER_SENT False ex_env "''local-offer''"]
          createAndSendOffer_paths[OF ex_service_record, of NEW False ex_env "''local-offer''"]
          createAndSendOffer_paths[OF ex_service_record, of NEW False ex_env_nooffer "''local-offer''"]
          createAndSendOffer_paths[OF ex_service_record, of NEW True ex_env "''local-offer''"]
          n
    by (simp add: ex_service_record ex_record_fields ex_env_fields e)
       (simp add: ex_service_def ex_record_def)
qed

text \<open>C8 as stated fails when the browser cannot create the offer: for a record in
  state \<open>NEW\<close> with the lock free the call ends with the record in state \<open>CONNECTING\<close>
  and no offer sent. A host reaches this when a peer joins.\<close>

theorem offer_creation_counterexample:
  "Map_get (connections (ex_service NEW False)) ''B'' = Some (ex_record NEW False) \<and>
   state (ex_record NEW False) \<notin> {OFFER_SENT, OFFER_RECEIVED, ANSWER_SENT, ANSWER_RECEIVED, CONNECTED} \<and>
   Map_get (connections (createAndSendOffer ex_env_nooffer ''B'' (ex_service NEW False))) ''B''
     = Some (ex_record CONNECTING False) \<and>
   trace (createAndSendOffer ex_env_nooffer ''B'' (ex_service NEW False))
     = [StateChange ''B'' CONNECTING, CreateOffer 0, OnError (Error ''OperationError'')] \<and>
   Map_get (connections (handlePeerJoin ex_env_nooffer (Peer ''B'' False)
       (initial ''A'' True True True True True))) ''B''
     = Some (ex_record CONNECTING False) \<and>
   trace (handlePeerJoin ex_env_nooffer (Peer ''B'' False) (initial ''A'' True True True True True))
     = [NewPeerConnection 0, CreateDataChannel 0 1, TableSet ''B'',
        SetTimeout (ConnectTimeout ''B'' False True) 10000,
        StateChange ''B'' CONNECTING, CreateOffer 0, OnPeerCountChange 0,
        OnError (Error ''OperationError'')]"
  by code_simp

end
